theory Spec2Isabelle
  imports Main
begin

section \<open>Python text\<close>

text \<open>
  A Python \<open>str\<close> is a sequence of Unicode code points, so it is modelled as a list of
  naturals; \<open>len\<close> is \<open>length\<close>.  The ASCII literals of the source are written through
  \<open>str\<close>; the Chinese message literals are given by their code points.  Uploaded file
  contents are byte sequences.
\<close>

type_synonym pystr = "nat list"
type_synonym bytes = "nat list"

definition str :: "string \<Rightarrow> pystr" where
  "str s = map of_char s"

text \<open>The characters \<open>str.strip()\<close> removes: those for which \<open>str.isspace\<close> holds.\<close>

definition is_space :: "nat \<Rightarrow> bool" where
  "is_space c \<longleftrightarrow>
     (9 \<le> c \<and> c \<le> 13) \<or> (28 \<le> c \<and> c \<le> 32) \<or> c = 133 \<or> c = 160 \<or> c = 5760 \<or>
     (8192 \<le> c \<and> c \<le> 8202) \<or> c = 8232 \<or> c = 8233 \<or> c = 8239 \<or> c = 8287 \<or> c = 12288"

definition strip :: "pystr \<Rightarrow> pystr" where
  "strip s = rev (dropWhile is_space (rev (dropWhile is_space s)))"

text \<open>
  \<open>str.lower()\<close>: exact on ASCII and on the two code points outside ASCII whose lower case
  contains an ASCII letter (KELVIN SIGN and LATIN CAPITAL LETTER I WITH DOT ABOVE).  Every
  other cased letter outside ASCII is mapped by Python to code points outside ASCII; the
  model leaves it in place, which makes no difference to a comparison with an ASCII word.
\<close>

definition lower_cp :: "nat \<Rightarrow> pystr" where
  "lower_cp c =
     (if 65 \<le> c \<and> c \<le> 90 then [c + 32]
      else if c = 8490 then [107]
      else if c = 304 then [105, 775]
      else [c])"

definition lower :: "pystr \<Rightarrow> pystr" where
  "lower s = concat (map lower_cp s)"

text \<open>\<open>str(n)\<close> for a non-negative integer \<open>n\<close>.\<close>

fun digits :: "nat \<Rightarrow> pystr" where
  "digits n = (if n < 10 then [48 + n] else digits (n div 10) @ [48 + n mod 10])"

declare digits.simps [simp del]

text \<open>\<open>os.path.join(a, b)\<close> of \<open>posixpath\<close>, for two components.\<close>

definition path_join :: "pystr \<Rightarrow> pystr \<Rightarrow> pystr" where
  "path_join a b =
     (if take 1 b = [47] then b
      else if a = [] \<or> last a = 47 then a @ b
      else a @ [47] @ b)"

text \<open>Truth value of an optional string (\<open>None\<close> and \<open>''\<close> are false).\<close>

definition truthy_str :: "pystr option \<Rightarrow> bool" where
  "truthy_str v = (case v of None \<Rightarrow> False | Some s \<Rightarrow> s \<noteq> [])"

text \<open>An optional string inside an f-string.\<close>

definition fmt :: "pystr option \<Rightarrow> pystr" where
  "fmt v = (case v of None \<Rightarrow> str ''None'' | Some s \<Rightarrow> s)"

section \<open>Allowed file extensions\<close>

definition ALLOWED_AUDIO_EXTENSIONS :: "pystr set" where
  "ALLOWED_AUDIO_EXTENSIONS = {str ''wav'', str ''mp3'', str ''flac'', str ''m4a'', str ''ogg''}"

definition ALLOWED_PDF_EXTENSIONS :: "pystr set" where
  "ALLOWED_PDF_EXTENSIONS = {str ''pdf''}"

text \<open>\<open>s.rsplit(sep, 1)\<close> for a one-character separator.\<close>

definition rsplit1 :: "nat \<Rightarrow> pystr \<Rightarrow> pystr list" where
  "rsplit1 sep s =
     (if sep \<in> set s
      then [rev (tl (dropWhile (\<lambda>c. c \<noteq> sep) (rev s))), rev (takeWhile (\<lambda>c. c \<noteq> sep) (rev s))]
      else [s])"

definition allowed_file :: "pystr \<Rightarrow> pystr set \<Rightarrow> bool" where
  "allowed_file filename allowed_extensions =
     (if 46 \<in> set filename
      then lower (rsplit1 46 filename ! 1) \<in> allowed_extensions
      else False)"

section \<open>JSON values and events\<close>

datatype json = JNull | JBool bool | JNum int | JStr pystr
  | JArr "json list" | JObj "(pystr \<times> json) list"

text \<open>
  A Python dict with string keys, in insertion order.  An event is the dict handed to
  \<open>json.dumps\<close>; the framing \<open>data: ...\<close> of the wire format is left out.
\<close>

type_synonym event = "(pystr \<times> json) list"
type_synonym config = "(pystr \<times> pystr) list"

fun truthy :: "json \<Rightarrow> bool" where
  "truthy JNull = False"
| "truthy (JBool b) = b"
| "truthy (JNum n) = (n \<noteq> 0)"
| "truthy (JStr s) = (s \<noteq> [])"
| "truthy (JArr xs) = (xs \<noteq> [])"
| "truthy (JObj kvs) = (kvs \<noteq> [])"

definition event_type :: "event \<Rightarrow> json option" where
  "event_type ev = map_of ev (str ''type'')"

definition progress_event :: "pystr \<Rightarrow> pystr \<Rightarrow> event" where
  "progress_event step message =
     [(str ''type'', JStr (str ''progress'')), (str ''step'', JStr step),
      (str ''message'', JStr message)]"

definition log_event :: "pystr \<Rightarrow> event" where
  "log_event message = [(str ''type'', JStr (str ''log'')), (str ''message'', JStr message)]"

definition error_event :: "pystr \<Rightarrow> event" where
  "error_event message = [(str ''type'', JStr (str ''error'')), (str ''message'', JStr message)]"

definition url_parse_warning_event :: "pystr \<Rightarrow> pystr \<Rightarrow> event" where
  "url_parse_warning_event message error_code =
     [(str ''type'', JStr (str ''url_parse_warning'')), (str ''message'', JStr message),
      (str ''error_code'', JStr error_code)]"

definition trace_id_event :: "pystr \<Rightarrow> json \<Rightarrow> event" where
  "trace_id_event key trace_id =
     [(str ''type'', JStr (str ''trace_id'')), (str ''api'', JStr key),
      (str ''trace_id'', trace_id)]"

subsection \<open>Message literals of the source\<close>

definition msg_no_api_key :: pystr where
  "msg_no_api_key = [26410, 25552, 20379, 32, 65, 80, 73, 32, 75, 101, 121]"

definition msg_parsing_content :: pystr where
  "msg_parsing_content = [27491, 22312, 35299, 26512, 36755, 20837, 20869, 23481, 46, 46, 46]"

definition msg_uploaded_pdf :: pystr where
  "msg_uploaded_pdf = [24050, 19978, 20256, 32, 80, 68, 70, 58, 32]"

definition msg_start_url :: pystr where
  "msg_start_url = [24320, 22987, 35299, 26512, 32593, 22336, 58, 32]"

definition no_content_marker :: pystr where
  "no_content_marker = [27809, 26377, 21487, 29992, 30340, 20869, 23481]"

definition msg_need_input :: pystr where
  "msg_need_input = [35831, 33267, 23569, 25552, 20379, 19968, 31181, 36755, 20837, 20869,
     23481, 65288, 25991, 26412, 47, 32593, 22336, 47, 80, 68, 70, 65289]"

definition msg_parsed_prefix :: pystr where
  "msg_parsed_prefix = [20869, 23481, 35299, 26512, 23436, 25104, 65292, 20849, 32]"

definition msg_parsed_suffix :: pystr where
  "msg_parsed_suffix = [32, 23383, 31526]"

definition msg_preparing_voices :: pystr where
  "msg_preparing_voices = [27491, 22312, 20934, 22791, 38899, 33394, 46, 46, 46]"

definition msg_audio_uploaded :: pystr where
  "msg_audio_uploaded = [32, 38899, 39057, 24050, 19978, 20256]"

definition msg_custom_without_audio :: pystr where
  "msg_custom_without_audio = [32, 36873, 25321, 33258, 23450, 20041, 38899, 33394, 20294,
     26410, 19978, 20256, 38899, 39057, 25991, 20214]"

definition msg_generation_failed :: pystr where
  "msg_generation_failed = [25773, 23458, 29983, 25104, 22833, 36133, 58, 32]"

definition msg_no_audio_file :: pystr where
  "msg_no_audio_file = [26410, 25552, 20379, 38899, 39057, 25991, 20214]"

definition msg_audio_empty :: pystr where
  "msg_audio_empty = [38899, 39057, 25991, 20214, 20026, 31354]"

definition msg_empty_request :: pystr where
  "msg_empty_request = [35831, 27714, 25968, 25454, 20026, 31354]"

definition msg_audio_missing :: pystr where
  "msg_audio_missing = [38899, 39057, 25991, 20214, 19981, 23384, 22312]"

definition msg_clone_failed :: pystr where
  "msg_clone_failed = [20811, 38534, 22833, 36133]"

definition msg_url_failed :: pystr where
  "msg_url_failed = [32593, 22336, 35299, 26512, 22833, 36133]"

definition msg_pdf_failed :: pystr where
  "msg_pdf_failed = [80, 68, 70, 35299, 26512, 22833, 36133]"

definition msg_server_error :: pystr where
  "msg_server_error = [26381, 21153, 22120, 38169, 35823, 58, 32]"

section \<open>The outside world\<close>

text \<open>
  The helper modules \<open>content_parser\<close>, \<open>voice_manager\<close>, \<open>podcast_generator\<close> and \<open>config\<close>,
  the library function \<open>secure_filename\<close> and the file system are parameters.  Each helper
  is called at most once per request, so a function of its arguments fixes the answer it
  gives in the request at hand.  A helper either raises an exception (\<open>Inl\<close> of its
  \<open>str(e)\<close>; exceptions are those of class \<open>Exception\<close>) or returns a result.  The podcast
  generator yields finitely many events and then finishes or raises.  Saving an uploaded
  file (\<open>FileStorage.save\<close>) returns or raises as well.  Calls of the logger change nothing
  that a request yields, saves or calls, and are left out.
\<close>

record file_storage =
  filename :: pystr
  stream :: bytes

text \<open>
  The result dicts of the helpers.  A key the source reads with \<open>.get\<close> may be absent
  (\<open>None\<close>); a key it reads only by subscript is taken as present.
\<close>

record parse_result =
  success :: bool
  content :: pystr
  logs :: "pystr list"
  error :: "pystr option"
  error_code :: "pystr option"

record voices_result =
  vsuccess :: bool
  verror :: "pystr option"
  vlogs :: "pystr list"
  trace_ids :: "(pystr \<times> json) list"
  speaker1 :: json
  speaker2 :: json

record env =
  UPLOAD_DIR :: pystr
  MINIMAX_API_KEY :: pystr
  secure_filename :: "pystr \<Rightarrow> pystr"
  save :: "pystr \<Rightarrow> bytes \<Rightarrow> pystr + unit"
  path_exists :: "pystr \<Rightarrow> bool"
  parse_pdf :: "pystr \<Rightarrow> pystr + parse_result"
  parse_url :: "pystr \<Rightarrow> pystr + parse_result"
  merge_contents :: "pystr \<Rightarrow> pystr \<Rightarrow> pystr \<Rightarrow> pystr + pystr"
  prepare_voices :: "config \<Rightarrow> config \<Rightarrow> pystr \<Rightarrow> pystr + voices_result"
  generate_podcast_stream ::
    "pystr \<Rightarrow> json \<Rightarrow> json \<Rightarrow> pystr \<Rightarrow> pystr \<Rightarrow> event list \<times> pystr option"

text \<open>
  A request: the form fields, the uploaded files, and the JSON body (\<open>Inl\<close> when
  \<open>request.get_json()\<close> raises).  A file object is true when its file name is not empty.
\<close>

record request =
  form :: "pystr \<rightharpoonup> pystr"
  files :: "pystr \<rightharpoonup> file_storage"
  is_json :: bool
  get_json :: "pystr + (pystr \<times> pystr) list"

definition file_true :: "file_storage \<Rightarrow> bool" where
  "file_true f \<longleftrightarrow> filename f \<noteq> []"

definition form_get :: "request \<Rightarrow> pystr \<Rightarrow> pystr \<Rightarrow> pystr" where
  "form_get req key dflt = (case form req key of None \<Rightarrow> dflt | Some v \<Rightarrow> v)"

section \<open>Traces\<close>

text \<open>
  What a request does, in order: the events its generator yields and the calls it makes
  into the outside world.
\<close>

datatype call =
    Save pystr bytes
  | ParsePdf pystr
  | ParseUrl pystr
  | MergeContents pystr pystr pystr
  | PrepareVoices config config pystr
  | GeneratePodcastStream pystr json json pystr pystr

datatype action = Yield event | Invoke call

text \<open>
  A piece of code runs to its end with a value (\<open>Next\<close>), executes \<open>return\<close> (\<open>Return\<close>),
  or raises (\<open>Raise\<close>, with \<open>str(e)\<close>).
\<close>

datatype ('a, 'r) outcome = Next 'a | Return 'r | Raise pystr

type_synonym ('a, 'r) gen = "action list \<times> ('a, 'r) outcome"

definition ret :: "'a \<Rightarrow> ('a, 'r) gen" where
  "ret x = ([], Next x)"

definition return :: "'r \<Rightarrow> ('a, 'r) gen" where
  "return r = ([], Return r)"

definition yield :: "event \<Rightarrow> (unit, 'r) gen" where
  "yield ev = ([Yield ev], Next ())"

definition yield_all :: "event list \<Rightarrow> (unit, 'r) gen" where
  "yield_all evs = (map Yield evs, Next ())"

definition invoke :: "call \<Rightarrow> pystr + 'a \<Rightarrow> ('a, 'r) gen" where
  "invoke c res = ([Invoke c], case res of Inl e \<Rightarrow> Raise e | Inr x \<Rightarrow> Next x)"

definition bind :: "('a, 'r) gen \<Rightarrow> ('a \<Rightarrow> ('b, 'r) gen) \<Rightarrow> ('b, 'r) gen" where
  "bind m f =
     (case snd m of
        Next x \<Rightarrow> (fst m @ fst (f x), snd (f x))
      | Return r \<Rightarrow> (fst m, Return r)
      | Raise e \<Rightarrow> (fst m, Raise e))"

text \<open>\<open>d[key]\<close> for a key that may be absent: \<open>KeyError\<close>, whose \<open>str\<close> is the quoted key.\<close>

definition subscript :: "pystr \<Rightarrow> 'a option \<Rightarrow> ('a, 'r) gen" where
  "subscript key v = (case v of None \<Rightarrow> ([], Raise ([39] @ key @ [39])) | Some x \<Rightarrow> ret x)"

text \<open>A computation inside the program that may raise.\<close>

definition lift :: "pystr + 'a \<Rightarrow> ('a, 'r) gen" where
  "lift res = ([], case res of Inl e \<Rightarrow> Raise e | Inr x \<Rightarrow> Next x)"

definition try_except :: "('a, 'r) gen \<Rightarrow> (pystr \<Rightarrow> ('a, 'r) gen) \<Rightarrow> ('a, 'r) gen" where
  "try_except m h =
     (case snd m of
        Raise e \<Rightarrow> (fst m @ fst (h e), snd (h e))
      | _ \<Rightarrow> m)"

section \<open>The route \<open>/api/generate_podcast\<close>\<close>

datatype response = EventStream "(unit, unit) gen" | Jsonify event

text \<open>The variables of \<open>generate_podcast\<close> that its generator closes over.\<close>

record locals =
  session_id :: pystr
  user_api_key :: pystr
  text_input :: pystr
  url_input :: pystr
  pdf_file :: "pystr option"
  pdf_path :: "pystr option"
  speaker1_type :: pystr
  speaker1_voice_name :: pystr
  speaker1_audio_path :: "pystr option"
  speaker2_type :: pystr
  speaker2_voice_name :: pystr
  speaker2_audio_path :: "pystr option"

subsection \<open>The generator (lines 127 to 234)\<close>

text \<open>Lines 133 to 145: the PDF.  The result is \<open>pdf_content\<close>.\<close>

definition pdf_stage :: "env \<Rightarrow> locals \<Rightarrow> (pystr, unit) gen" where
  "pdf_stage env x =
     (case pdf_path x of
        None \<Rightarrow> ret []
      | Some p \<Rightarrow>
          if p = [] then ret []
          else
            bind (yield (log_event (msg_uploaded_pdf @ fmt (pdf_file x)))) (\<lambda>_.
            bind (invoke (ParsePdf p) (parse_pdf env p)) (\<lambda>pdf_result.
              if success pdf_result then
                bind (yield_all (map log_event (logs pdf_result))) (\<lambda>_.
                ret (content pdf_result))
              else
                bind (subscript (str ''error'') (error pdf_result)) (\<lambda>message.
                bind (yield (error_event message)) (\<lambda>_.
                return ())))))"

text \<open>Lines 147 to 163: the URL.  The result is \<open>url_content\<close>.\<close>

definition url_stage :: "env \<Rightarrow> locals \<Rightarrow> (pystr, unit) gen" where
  "url_stage env x =
     (if url_input x \<noteq> [] then
        bind (yield (log_event (msg_start_url @ url_input x))) (\<lambda>_.
        bind (invoke (ParseUrl (url_input x)) (parse_url env (url_input x))) (\<lambda>url_result.
          if success url_result then
            bind (yield_all (map log_event (logs url_result))) (\<lambda>_.
            ret (content url_result))
          else
            bind (subscript (str ''error'') (error url_result)) (\<lambda>message.
            bind (yield (url_parse_warning_event message
                    (case error_code url_result of None \<Rightarrow> str ''unknown'' | Some c \<Rightarrow> c))) (\<lambda>_.
            bind (yield_all (map log_event (logs url_result))) (\<lambda>_.
            ret [])))))
      else ret [])"

text \<open>Lines 165 to 172: merging.  The result is \<open>merged_content\<close>.\<close>

definition merge_stage :: "env \<Rightarrow> locals \<Rightarrow> pystr \<Rightarrow> pystr \<Rightarrow> (pystr, unit) gen" where
  "merge_stage env x url_content pdf_content =
     bind (invoke (MergeContents (text_input x) url_content pdf_content)
             (merge_contents env (text_input x) url_content pdf_content)) (\<lambda>merged_content.
       if merged_content = [] \<or> merged_content = no_content_marker then
         bind (yield (error_event msg_need_input)) (\<lambda>_.
         return ())
       else
         bind (yield (log_event
                 (msg_parsed_prefix @ digits (length merged_content) @ msg_parsed_suffix))) (\<lambda>_.
         ret merged_content))"

text \<open>Lines 130 to 172: step 1.\<close>

definition parse_step :: "env \<Rightarrow> locals \<Rightarrow> (pystr, unit) gen" where
  "parse_step env x =
     bind (yield (progress_event (str ''parsing_content'') msg_parsing_content)) (\<lambda>_.
     bind (pdf_stage env x) (\<lambda>pdf_content.
     bind (url_stage env x) (\<lambda>url_content.
     merge_stage env x url_content pdf_content)))"

text \<open>
  Lines 177 to 188 and 190 to 201: the configuration of one speaker.  The source has the
  same block twice, for \<open>Speaker1\<close> and \<open>Speaker2\<close>; \<open>label\<close> is that name.
\<close>

definition speaker_config ::
    "pystr \<Rightarrow> pystr \<Rightarrow> pystr \<Rightarrow> pystr option \<Rightarrow> (config, unit) gen" where
  "speaker_config label speaker_type voice_name audio_path =
     (if speaker_type = str ''default'' then
        ret [(str ''type'', speaker_type), (str ''voice_name'', voice_name)]
      else if speaker_type = str ''custom'' then
        (if truthy_str audio_path then
           bind (yield (log_event (label @ msg_audio_uploaded))) (\<lambda>_.
           ret [(str ''type'', speaker_type), (str ''audio_file'', fmt audio_path)])
         else
           bind (yield (error_event (label @ msg_custom_without_audio))) (\<lambda>_.
           return ()))
      else ret [(str ''type'', speaker_type)])"

definition speaker_configs :: "locals \<Rightarrow> (config \<times> config, unit) gen" where
  "speaker_configs x =
     bind (speaker_config (str ''Speaker1'') (speaker1_type x) (speaker1_voice_name x)
             (speaker1_audio_path x)) (\<lambda>speaker1_config.
     bind (speaker_config (str ''Speaker2'') (speaker2_type x) (speaker2_voice_name x)
             (speaker2_audio_path x)) (\<lambda>speaker2_config.
     ret (speaker1_config, speaker2_config)))"

text \<open>Lines 203 to 220: preparing the voices.  The result is the two voice ids.\<close>

definition voices_step :: "env \<Rightarrow> locals \<Rightarrow> config \<times> config \<Rightarrow> (json \<times> json, unit) gen" where
  "voices_step env x cfgs =
     bind (invoke (PrepareVoices (fst cfgs) (snd cfgs) (user_api_key x))
             (prepare_voices env (fst cfgs) (snd cfgs) (user_api_key x))) (\<lambda>voices_result.
       if \<not> vsuccess voices_result then
         bind (subscript (str ''error'') (verror voices_result)) (\<lambda>message.
         bind (yield (error_event message)) (\<lambda>_.
         return ()))
       else
         bind (yield_all (map log_event (vlogs voices_result))) (\<lambda>_.
         bind (yield_all (map (\<lambda>kt. trace_id_event (fst kt) (snd kt))
                 (filter (\<lambda>kt. truthy (snd kt)) (trace_ids voices_result)))) (\<lambda>_.
         ret (speaker1 voices_result, speaker2 voices_result))))"

text \<open>Lines 222 to 230: the events of the podcast generator, passed on one by one.\<close>

definition podcast_step :: "env \<Rightarrow> locals \<Rightarrow> pystr \<Rightarrow> json \<times> json \<Rightarrow> (unit, unit) gen" where
  "podcast_step env x merged_content ids =
     (let res = generate_podcast_stream env merged_content (fst ids) (snd ids)
                  (session_id x) (user_api_key x)
      in (Invoke (GeneratePodcastStream merged_content (fst ids) (snd ids)
                    (session_id x) (user_api_key x)) # map Yield (fst res),
          case snd res of None \<Rightarrow> Next () | Some e \<Rightarrow> Raise e))"

definition generate_body :: "env \<Rightarrow> locals \<Rightarrow> (unit, unit) gen" where
  "generate_body env x =
     bind (parse_step env x) (\<lambda>merged_content.
     bind (yield (progress_event (str ''preparing_voices'') msg_preparing_voices)) (\<lambda>_.
     bind (speaker_configs x) (\<lambda>cfgs.
     bind (voices_step env x cfgs) (\<lambda>ids.
     podcast_step env x merged_content ids))))"

text \<open>Lines 129 and 232 to 234: the \<open>try\<close> around the body.\<close>

definition generate :: "env \<Rightarrow> locals \<Rightarrow> (unit, unit) gen" where
  "generate env x =
     try_except (generate_body env x)
       (\<lambda>e. yield (error_event (msg_generation_failed @ e)))"

subsection \<open>The request handler (lines 62 to 125 and 236)\<close>

definition error_gen :: "(unit, unit) gen" where
  "error_gen = yield (error_event msg_no_api_key)"

text \<open>
  Lines 98 to 100, 110 to 112 and 120 to 122: the file of an upload slot, when the slot is
  in \<open>request.files\<close>, the file object is true and its name has an allowed extension.
\<close>

definition accepted :: "request \<Rightarrow> pystr \<Rightarrow> pystr set \<Rightarrow> file_storage option" where
  "accepted req slot allowed =
     (case files req slot of
        None \<Rightarrow> None
      | Some f \<Rightarrow> if file_true f \<and> allowed_file (filename f) allowed then Some f else None)"

text \<open>
  Lines 101 to 104, 113 to 115 and 123 to 125: the file is saved as \<open>prefix\<close> followed by
  the secured file name.  The result is the path and that name.
\<close>

definition saved_as :: "env \<Rightarrow> pystr \<Rightarrow> file_storage \<Rightarrow> pystr \<times> pystr" where
  "saved_as env prefix f =
     (path_join (UPLOAD_DIR env) (prefix @ secure_filename env (filename f)),
      secure_filename env (filename f))"

definition save_upload ::
    "env \<Rightarrow> request \<Rightarrow> pystr \<Rightarrow> pystr set \<Rightarrow> pystr \<Rightarrow> ((pystr \<times> pystr) option, 'r) gen" where
  "save_upload env req slot allowed prefix =
     (case accepted req slot allowed of
        None \<Rightarrow> ret None
      | Some f \<Rightarrow>
          bind (invoke (Save (fst (saved_as env prefix f)) (stream f))
                  (save env (fst (saved_as env prefix f)) (stream f))) (\<lambda>_.
          ret (Some (saved_as env prefix f))))"

text \<open>
  Lines 107 to 125: the audio of one speaker (\<open>tag\<close> is \<open>speaker1\<close> or \<open>speaker2\<close>), looked
  at only when the speaker's type is \<open>custom\<close>.
\<close>

definition speaker_type_of :: "request \<Rightarrow> pystr \<Rightarrow> pystr" where
  "speaker_type_of req tag = form_get req (tag @ str ''_type'') (str ''default'')"

definition speaker_upload ::
    "env \<Rightarrow> request \<Rightarrow> pystr \<Rightarrow> pystr \<Rightarrow> ((pystr \<times> pystr) option, 'r) gen" where
  "speaker_upload env req sid tag =
     (if speaker_type_of req tag = str ''custom'' then
        save_upload env req (tag @ str ''_audio'') ALLOWED_AUDIO_EXTENSIONS
          (sid @ str ''_'' @ tag @ str ''_'')
      else ret None)"

definition locals_of ::
    "pystr \<Rightarrow> request \<Rightarrow> (pystr \<times> pystr) option \<Rightarrow> (pystr \<times> pystr) option \<Rightarrow>
     (pystr \<times> pystr) option \<Rightarrow> locals" where
  "locals_of sid req pdf audio1 audio2 =
     \<lparr> session_id = sid,
       user_api_key = strip (form_get req (str ''api_key'') []),
       text_input = strip (form_get req (str ''text_input'') []),
       url_input = strip (form_get req (str ''url'') []),
       pdf_file = map_option snd pdf,
       pdf_path = map_option fst pdf,
       speaker1_type = speaker_type_of req (str ''speaker1''),
       speaker1_voice_name = form_get req (str ''speaker1_voice_name'') (str ''mini''),
       speaker1_audio_path = map_option fst audio1,
       speaker2_type = speaker_type_of req (str ''speaker2''),
       speaker2_voice_name = form_get req (str ''speaker2_voice_name'') (str ''max''),
       speaker2_audio_path = map_option fst audio2 \<rparr>"

text \<open>\<open>uuid4\<close> is the value of \<open>str(uuid.uuid4())\<close>.\<close>

definition generate_podcast :: "env \<Rightarrow> pystr \<Rightarrow> request \<Rightarrow> (unit, response) gen" where
  "generate_podcast env uuid4 req =
     (if strip (form_get req (str ''api_key'') []) = [] then return (EventStream error_gen)
      else
        bind (save_upload env req (str ''pdf_file'') ALLOWED_PDF_EXTENSIONS (uuid4 @ str ''_''))
          (\<lambda>pdf.
        bind (speaker_upload env req uuid4 (str ''speaker1'')) (\<lambda>audio1.
        bind (speaker_upload env req uuid4 (str ''speaker2'')) (\<lambda>audio2.
        return (EventStream (generate env (locals_of uuid4 req pdf audio1 audio2)))))))"

text \<open>
  The variables the generator closes over, as the handler sets them when no save raises.
\<close>

definition speaker_audio :: "env \<Rightarrow> pystr \<Rightarrow> request \<Rightarrow> pystr \<Rightarrow> (pystr \<times> pystr) option" where
  "speaker_audio env sid req tag =
     (if speaker_type_of req tag = str ''custom'' then
        map_option (saved_as env (sid @ str ''_'' @ tag @ str ''_''))
          (accepted req (tag @ str ''_audio'') ALLOWED_AUDIO_EXTENSIONS)
      else None)"

definition closure :: "env \<Rightarrow> pystr \<Rightarrow> request \<Rightarrow> locals" where
  "closure env sid req =
     locals_of sid req
       (map_option (saved_as env (sid @ str ''_''))
          (accepted req (str ''pdf_file'') ALLOWED_PDF_EXTENSIONS))
       (speaker_audio env sid req (str ''speaker1''))
       (speaker_audio env sid req (str ''speaker2''))"


text \<open>
  Everything a request does: the handler's actions, then those of the stream it returns.
\<close>

definition run :: "(unit, response) gen \<Rightarrow> action list" where
  "run h =
     fst h @ (case snd h of Return (EventStream g) \<Rightarrow> fst g | _ \<Rightarrow> [])"

section \<open>The other routes\<close>

definition failure :: "pystr \<Rightarrow> response" where
  "failure message = Jsonify [(str ''success'', JBool False), (str ''error'', JStr message)]"

definition dict_get :: "(pystr \<times> pystr) list \<Rightarrow> pystr \<Rightarrow> pystr \<Rightarrow> pystr" where
  "dict_get d key dflt = (case map_of d key of None \<Rightarrow> dflt | Some v \<Rightarrow> v)"

definition or_default :: "pystr option \<Rightarrow> pystr \<Rightarrow> pystr" where
  "or_default v dflt = (case v of None \<Rightarrow> dflt | Some x \<Rightarrow> x)"

definition json_get :: "(pystr \<times> json) list \<Rightarrow> pystr \<Rightarrow> json" where
  "json_get d key = (case map_of d key of None \<Rightarrow> JNull | Some v \<Rightarrow> v)"

subsection \<open>\<open>/api/upload_audio\<close> (lines 241 to 270)\<close>

text \<open>\<open>uuid4\<close> is the value of \<open>str(uuid.uuid4())\<close> and \<open>now\<close> that of \<open>int(time.time())\<close>.\<close>

definition upload_audio_body :: "env \<Rightarrow> pystr \<Rightarrow> nat \<Rightarrow> request \<Rightarrow> (unit, response) gen" where
  "upload_audio_body env uuid4 now req =
     (case files req (str ''audio'') of
        None \<Rightarrow> return (failure msg_no_audio_file)
      | Some audio_file \<Rightarrow>
          if \<not> file_true audio_file then return (failure msg_audio_empty)
          else
            (let sid = form_get req (str ''session_id'') uuid4;
                 speaker = form_get req (str ''speaker'') (str ''unknown'');
                 name = sid @ str ''_'' @ speaker @ str ''_'' @ digits now @ str ''.wav'';
                 file_path = path_join (UPLOAD_DIR env) name
             in bind (invoke (Save file_path (stream audio_file))
                        (save env file_path (stream audio_file))) (\<lambda>_.
                return (Jsonify [(str ''success'', JBool True), (str ''filepath'', JStr file_path),
                                 (str ''filename'', JStr name)]))))"

definition upload_audio :: "env \<Rightarrow> pystr \<Rightarrow> nat \<Rightarrow> request \<Rightarrow> (unit, response) gen" where
  "upload_audio env uuid4 now req =
     try_except (upload_audio_body env uuid4 now req) (\<lambda>e. return (failure e))"

subsection \<open>\<open>/api/clone-voice\<close> (lines 274 to 321)\<close>

definition clone_voice_body :: "env \<Rightarrow> request \<Rightarrow> (unit, response) gen" where
  "clone_voice_body env req =
     bind (lift (get_json req)) (\<lambda>data.
       if data = [] then return (failure msg_empty_request)
       else
         (let filepath = map_of data (str ''filepath'');
              speaker = dict_get data (str ''speaker'') (str ''unknown'')
          in
            if \<not> truthy_str filepath \<or> \<not> path_exists env (fmt filepath) then
              return (failure msg_audio_missing)
            else
              (let api_key = (if dict_get data (str ''api_key'') [] = [] then MINIMAX_API_KEY env
                              else dict_get data (str ''api_key'') []);
                   voice_config = [(str ''type'', str ''custom''), (str ''audio_file'', fmt filepath)];
                   default_config = [(str ''type'', str ''default''), (str ''voice_name'', str ''mini'')];
                   config1 = (if speaker = str ''speaker1'' then voice_config else default_config);
                   config2 = (if speaker = str ''speaker1'' then default_config else voice_config)
               in bind (invoke (PrepareVoices config1 config2 api_key)
                          (prepare_voices env config1 config2 api_key)) (\<lambda>result.
                    if \<not> vsuccess result then
                      return (failure (or_default (verror result) msg_clone_failed))
                    else
                      return (Jsonify
                        [(str ''success'', JBool True),
                         (str ''voice_id'',
                            if speaker = str ''speaker1'' then speaker1 result else speaker2 result),
                         (str ''upload_trace_id'',
                            json_get (trace_ids result) (speaker @ str ''_upload'')),
                         (str ''clone_trace_id'',
                            json_get (trace_ids result) (speaker @ str ''_clone''))])))))"

definition clone_voice :: "env \<Rightarrow> request \<Rightarrow> (unit, response) gen" where
  "clone_voice env req = try_except (clone_voice_body env req) (\<lambda>e. return (failure e))"

subsection \<open>\<open>/api/parse-content\<close> (lines 325 to 391)\<close>

definition parse_content_url :: "env \<Rightarrow> pystr \<Rightarrow> (pystr, response) gen" where
  "parse_content_url env url =
     (if url \<noteq> [] then
        bind (invoke (ParseUrl url) (parse_url env url)) (\<lambda>url_result.
          if success url_result then ret (content url_result)
          else return (failure (or_default (error url_result) msg_url_failed)))
      else ret [])"

definition parse_content_pdf :: "env \<Rightarrow> nat \<Rightarrow> request \<Rightarrow> (pystr, response) gen" where
  "parse_content_pdf env now req =
     (case files req (str ''file'') of
        None \<Rightarrow> ret []
      | Some f \<Rightarrow>
          if \<not> file_true f then ret []
          else
            (let name = secure_filename env (filename f);
                 path = path_join (UPLOAD_DIR env) (digits now @ str ''_'' @ name)
             in bind (invoke (Save path (stream f)) (save env path (stream f))) (\<lambda>_.
                bind (invoke (ParsePdf path) (parse_pdf env path)) (\<lambda>pdf_result.
                  if success pdf_result then ret (content pdf_result)
                  else return (failure (or_default (error pdf_result) msg_pdf_failed))))))"

definition parse_content_body :: "env \<Rightarrow> nat \<Rightarrow> request \<Rightarrow> (unit, response) gen" where
  "parse_content_body env now req =
     bind (if is_json req then lift (get_json req) else ret []) (\<lambda>data.
     bind (parse_content_url env (dict_get data (str ''url_input'') [])) (\<lambda>url_content.
     bind (parse_content_pdf env now req) (\<lambda>pdf_content.
     bind (invoke (MergeContents (dict_get data (str ''text_input'') []) url_content pdf_content)
             (merge_contents env (dict_get data (str ''text_input'') []) url_content pdf_content))
       (\<lambda>merged_content.
         if merged_content = [] then return (failure msg_need_input)
         else
           return (Jsonify
             [(str ''success'', JBool True), (str ''content'', JStr merged_content),
              (str ''message'', JStr (msg_parsed_prefix @ digits (length merged_content)
                                       @ msg_parsed_suffix))])))))"

definition parse_content :: "env \<Rightarrow> nat \<Rightarrow> request \<Rightarrow> (unit, response) gen" where
  "parse_content env now req =
     try_except (parse_content_body env now req) (\<lambda>e. return (failure (msg_server_error @ e)))"

section \<open>Vocabulary of the properties\<close>

text \<open>The events among the actions, in their order.\<close>

definition events :: "action list \<Rightarrow> event list" where
  "events as = concat (map (\<lambda>a. case a of Yield ev \<Rightarrow> [ev] | Invoke c \<Rightarrow> []) as)"

text \<open>The event has the given value in its field \<open>type\<close>.\<close>

definition is_type :: "string \<Rightarrow> event \<Rightarrow> bool" where
  "is_type name ev \<longleftrightarrow> event_type ev = Some (JStr (str name))"

text \<open>A call into the speech provider: voice preparation or podcast generation.\<close>

definition provider_call :: "action \<Rightarrow> bool" where
  "provider_call a =
     (case a of
        Yield ev \<Rightarrow> False
      | Invoke c \<Rightarrow>
          (case c of
             PrepareVoices c1 c2 key \<Rightarrow> True
           | GeneratePodcastStream m v1 v2 sid key \<Rightarrow> True
           | _ \<Rightarrow> False))"

text \<open>A call that saves a file.\<close>

definition is_save :: "action \<Rightarrow> bool" where
  "is_save a =
     (case a of
        Yield ev \<Rightarrow> False
      | Invoke c \<Rightarrow> (case c of Save path data \<Rightarrow> True | _ \<Rightarrow> False))"

text \<open>The missing inputs of claim C1.\<close>

definition no_api_key :: "request \<Rightarrow> bool" where
  "no_api_key req \<longleftrightarrow> strip (form_get req (str ''api_key'') []) = []"

definition custom_without_audio :: "request \<Rightarrow> pystr \<Rightarrow> bool" where
  "custom_without_audio req tag \<longleftrightarrow>
     speaker_type_of req tag = str ''custom'' \<and>
     accepted req (tag @ str ''_audio'') ALLOWED_AUDIO_EXTENSIONS = None"

text \<open>
  The three sources are empty after parsing: the text is empty, and the PDF stage and the
  URL stage, when they produce a content, produce the empty one.
\<close>

definition sources_empty :: "env \<Rightarrow> locals \<Rightarrow> bool" where
  "sources_empty env x \<longleftrightarrow>
     text_input x = [] \<and>
     (case snd (pdf_stage env x) of Next c \<Rightarrow> c = [] | _ \<Rightarrow> True) \<and>
     (case snd (url_stage env x) of Next c \<Rightarrow> c = [] | _ \<Rightarrow> True)"

text \<open>
  The merge helper is not part of \<open>app.py\<close>.  The generator takes its answer as ``no
  content'' when it is empty or the marker; a helper that raises fits as well.
\<close>

definition no_content :: "pystr + pystr \<Rightarrow> bool" where
  "no_content res = (case res of Inl e \<Rightarrow> True | Inr m \<Rightarrow> m = [] \<or> m = no_content_marker)"

text \<open>A piece of code that makes no call into the speech provider.\<close>

definition calm :: "('a, 'r) gen \<Rightarrow> bool" where
  "calm g \<longleftrightarrow> (\<forall>a\<in>set (fst g). \<not> provider_call a)"

text \<open>A piece of code that executes \<open>return\<close> only after it has yielded an error event.\<close>

definition warns :: "('a, 'r) gen \<Rightarrow> bool" where
  "warns g \<longleftrightarrow>
     (\<forall>r. snd g = Return r \<longrightarrow> (\<exists>ev. Yield ev \<in> set (fst g) \<and> is_type ''error'' ev))"

text \<open>A piece of code all of whose events satisfy \<open>P\<close>.\<close>

definition yields_only :: "(event \<Rightarrow> bool) \<Rightarrow> ('a, 'r) gen \<Rightarrow> bool" where
  "yields_only P g \<longleftrightarrow> (\<forall>ev. Yield ev \<in> set (fst g) \<longrightarrow> P ev)"

text \<open>The types of the events that \<open>app.py\<close> builds itself.\<close>

definition own_type :: "event \<Rightarrow> bool" where
  "own_type ev \<longleftrightarrow>
     is_type ''progress'' ev \<or> is_type ''log'' ev \<or> is_type ''error'' ev \<or>
     is_type ''trace_id'' ev \<or> is_type ''url_parse_warning'' ev"

text \<open>The four types that claim C2 names.\<close>

definition claimed_type :: "event \<Rightarrow> bool" where
  "claimed_type ev \<longleftrightarrow>
     is_type ''progress'' ev \<or> is_type ''log'' ev \<or> is_type ''error'' ev \<or>
     is_type ''trace_id'' ev"

text \<open>A piece of code that saves no file.\<close>

definition saveless :: "('a, 'r) gen \<Rightarrow> bool" where
  "saveless g \<longleftrightarrow> (\<forall>a\<in>set (fst g). \<not> is_save a)"



text \<open>
  In the words of claim C5: the name contains a dot, and the substring after the last dot,
  lowercased, is in the allowed set.
\<close>

definition has_allowed_extension :: "pystr \<Rightarrow> pystr set \<Rightarrow> bool" where
  "has_allowed_extension name allowed \<longleftrightarrow>
     (\<exists>pre ext. name = pre @ [46] @ ext \<and> 46 \<notin> set ext \<and> lower ext \<in> allowed)"

text \<open>The upload slots of \<open>/api/generate_podcast\<close> with their allowed extensions.\<close>

definition upload_slots :: "(pystr \<times> pystr set) list" where
  "upload_slots =
     [(str ''pdf_file'', ALLOWED_PDF_EXTENSIONS),
      (str ''speaker1_audio'', ALLOWED_AUDIO_EXTENSIONS),
      (str ''speaker2_audio'', ALLOWED_AUDIO_EXTENSIONS)]"

text \<open>The same request without the file of a slot.\<close>

definition without_file :: "request \<Rightarrow> pystr \<Rightarrow> request" where
  "without_file req slot = req \<lparr> files := (files req) (slot := None) \<rparr>"

text \<open>The API key a call into the speech provider is made with.\<close>

definition call_key :: "action \<Rightarrow> pystr option" where
  "call_key a =
     (case a of
        Yield ev \<Rightarrow> None
      | Invoke c \<Rightarrow>
          (case c of
             PrepareVoices c1 c2 key \<Rightarrow> Some key
           | GeneratePodcastStream m v1 v2 sid key \<Rightarrow> Some key
           | _ \<Rightarrow> None))"

text \<open>The name \<open>/api/upload_audio\<close> builds for a recording.\<close>

definition recording_name :: "pystr \<Rightarrow> nat \<Rightarrow> request \<Rightarrow> pystr" where
  "recording_name uuid4 now req =
     form_get req (str ''session_id'') uuid4 @ str ''_''
       @ form_get req (str ''speaker'') (str ''unknown'') @ str ''_'' @ digits now @ str ''.wav''"

text \<open>
  The saves that the handler of \<open>/api/generate_podcast\<close> is due to make, in their order:
  one for each upload slot whose file is accepted (lines 98 to 125).
\<close>

definition slot_save :: "env \<Rightarrow> pystr \<Rightarrow> file_storage option \<Rightarrow> (pystr \<times> bytes) list" where
  "slot_save env prefix file =
     (case file of None \<Rightarrow> [] | Some f \<Rightarrow> [(fst (saved_as env prefix f), stream f)])"

definition speaker_due :: "env \<Rightarrow> pystr \<Rightarrow> request \<Rightarrow> pystr \<Rightarrow> (pystr \<times> bytes) list" where
  "speaker_due env sid req tag =
     (if speaker_type_of req tag = str ''custom'' then
        slot_save env (sid @ str ''_'' @ tag @ str ''_'')
          (accepted req (tag @ str ''_audio'') ALLOWED_AUDIO_EXTENSIONS)
      else [])"

definition due_saves :: "env \<Rightarrow> pystr \<Rightarrow> request \<Rightarrow> (pystr \<times> bytes) list" where
  "due_saves env sid req =
     slot_save env (sid @ str ''_'') (accepted req (str ''pdf_file'') ALLOWED_PDF_EXTENSIONS)
     @ speaker_due env sid req (str ''speaker1'') @ speaker_due env sid req (str ''speaker2'')"

text \<open>Every one of the saves returns (none raises).\<close>

definition saves_return :: "env \<Rightarrow> (pystr \<times> bytes) list \<Rightarrow> bool" where
  "saves_return env ps = list_all (\<lambda>pd. save env (fst pd) (snd pd) = Inr ()) ps"

definition save_actions :: "(pystr \<times> bytes) list \<Rightarrow> action list" where
  "save_actions ps = map (\<lambda>pd. Invoke (Save (fst pd) (snd pd))) ps"

text \<open>
  The log events of content parsing on a stream that gets past it: the PDF's, the URL's
  (with the warning of a failing URL), and the one that reports the merged content \<open>m\<close>.
\<close>

definition pdf_log_events :: "env \<Rightarrow> locals \<Rightarrow> event list" where
  "pdf_log_events env x =
     (if truthy_str (pdf_path x) then
        log_event (msg_uploaded_pdf @ fmt (pdf_file x))
        # (case parse_pdf env (fmt (pdf_path x)) of
             Inl e \<Rightarrow> []
           | Inr r \<Rightarrow> map log_event (logs r))
      else [])"

definition url_log_events :: "env \<Rightarrow> locals \<Rightarrow> event list" where
  "url_log_events env x =
     (if url_input x \<noteq> [] then
        log_event (msg_start_url @ url_input x)
        # (case parse_url env (url_input x) of
             Inl e \<Rightarrow> []
           | Inr r \<Rightarrow>
               if success r then map log_event (logs r)
               else url_parse_warning_event (fmt (error r))
                      (case error_code r of None \<Rightarrow> str ''unknown'' | Some c \<Rightarrow> c)
                    # map log_event (logs r))
      else [])"

definition parsing_log_events :: "env \<Rightarrow> locals \<Rightarrow> pystr \<Rightarrow> event list" where
  "parsing_log_events env x m =
     pdf_log_events env x @ url_log_events env x
     @ [log_event (msg_parsed_prefix @ digits (length m) @ msg_parsed_suffix)]"

text \<open>
  The log and trace id events of voice preparation on a stream that gets past it: the logs
  of the uploaded speaker audios, then the logs and the trace ids of the result \<open>vr\<close>.
\<close>

definition voice_log_events :: "locals \<Rightarrow> voices_result \<Rightarrow> event list" where
  "voice_log_events x vr =
     (if speaker1_type x = str ''custom'' then [log_event (str ''Speaker1'' @ msg_audio_uploaded)]
      else [])
     @ (if speaker2_type x = str ''custom'' then [log_event (str ''Speaker2'' @ msg_audio_uploaded)]
        else [])
     @ map log_event (vlogs vr)
     @ map (\<lambda>kt. trace_id_event (fst kt) (snd kt)) (filter (\<lambda>kt. truthy (snd kt)) (trace_ids vr))"


section \<open>Concrete worlds and requests\<close>

text \<open>
  A world in which every helper answers: the PDF parser succeeds, the URL parser reports
  a failure, the voices are prepared and the podcast generator yields one event.
\<close>

definition demo_env :: env where
  "demo_env =
     \<lparr> UPLOAD_DIR = str ''uploads'',
       MINIMAX_API_KEY = str ''server-key'',
       secure_filename = (\<lambda>name. name),
       save = (\<lambda>path data. Inr ()),
       path_exists = (\<lambda>path. True),
       parse_pdf = (\<lambda>path. Inr \<lparr> success = True, content = str ''pdf text'',
                      logs = [str ''pdf parsed''], error = None, error_code = None \<rparr>),
       parse_url = (\<lambda>url. Inr \<lparr> success = False, content = [],
                      logs = [str ''fetch failed''], error = Some (str ''timeout''),
                      error_code = None \<rparr>),
       merge_contents = (\<lambda>t u p. Inr (t @ u @ p)),
       prepare_voices = (\<lambda>c1 c2 key. Inr \<lparr> vsuccess = True, verror = None,
                      vlogs = [str ''voices ready''],
                      trace_ids = [(str ''speaker1_clone'', JStr (str ''t1''))],
                      speaker1 = JStr (str ''v1''), speaker2 = JStr (str ''v2'') \<rparr>),
       generate_podcast_stream =
         (\<lambda>c a b sid key. ([[(str ''type'', JStr (str ''complete''))]], None)) \<rparr>"

text \<open>The same world, but the podcast generator raises after its first event.\<close>

definition failing_stream_env :: env where
  "failing_stream_env =
     demo_env \<lparr> generate_podcast_stream :=
       (\<lambda>c a b sid key. ([[(str ''type'', JStr (str ''script''))]], Some (str ''boom''))) \<rparr>"

text \<open>A request with an API key, a text, a URL and a PDF file.\<close>

definition demo_request :: request where
  "demo_request =
     \<lparr> form = map_of [(str ''api_key'', str '' k1 ''), (str ''text_input'', str ''hello''),
                      (str ''url'', str ''http://x'')],
       files = map_of [(str ''pdf_file'', \<lparr> filename = str ''a.PDF'', stream = [1, 2, 3] \<rparr>)],
       is_json = False,
       get_json = Inl (str ''415'') \<rparr>"

text \<open>
  Requests for the three kinds of missing input: no API key, no content, and a custom
  speaker without audio (with a PDF file to save).
\<close>

definition bare_request :: request where
  "bare_request =
     \<lparr> form = Map.empty, files = Map.empty, is_json = False, get_json = Inl (str ''415'') \<rparr>"

definition keyed_request :: request where
  "keyed_request = bare_request \<lparr> form := map_of [(str ''api_key'', str ''k1'')] \<rparr>"

definition custom_request :: request where
  "custom_request =
     bare_request \<lparr> form := map_of [(str ''api_key'', str ''k1''), (str ''text_input'', str ''hello''),
                                    (str ''speaker1_type'', str ''custom'')],
                    files := map_of [(str ''pdf_file'',
                                      \<lparr> filename = str ''a.pdf'', stream = [1, 2, 3] \<rparr>)] \<rparr>"



text \<open>A request whose PDF slot holds a text file.\<close>

definition text_file_request :: request where
  "text_file_request =
     demo_request \<lparr> files := map_of [(str ''pdf_file'',
                                      \<lparr> filename = str ''notes.txt'', stream = [7] \<rparr>)] \<rparr>"

text \<open>A request to \<open>/api/clone-voice\<close> that supplies no API key.\<close>

definition clone_request :: request where
  "clone_request =
     \<lparr> form = Map.empty, files = Map.empty, is_json = True,
       get_json = Inr [(str ''filepath'', str ''uploads/a.wav''), (str ''speaker'', str ''speaker1'')] \<rparr>"

text \<open>A request whose first speaker has a default voice and an uploaded audio file.\<close>

definition default_voice_request :: request where
  "default_voice_request =
     \<lparr> form = map_of [(str ''api_key'', str ''k1''), (str ''text_input'', str ''hello''),
                      (str ''speaker1_type'', str ''default''),
                      (str ''speaker1_voice_name'', str ''mini'')],
       files = map_of [(str ''speaker1_audio'', \<lparr> filename = str ''me.wav'', stream = [9] \<rparr>)],
       is_json = False,
       get_json = Inl (str ''415'') \<rparr>"

text \<open>A world whose disk is full: every save raises.\<close>

definition full_disk_env :: env where
  "full_disk_env = demo_env \<lparr> save := (\<lambda>path data. Inl (str ''disk full'')) \<rparr>"

text \<open>Uploads of a recording: without form fields, and with a session id of the client.\<close>

definition recording_request :: request where
  "recording_request =
     bare_request \<lparr> files := map_of [(str ''audio'',
                                      \<lparr> filename = str ''clip.mp3'', stream = [5] \<rparr>)] \<rparr>"


section \<open>Properties\<close>

subsection \<open>Unfolding and sequencing\<close>

lemmas gen_defs = ret_def return_def yield_def yield_all_def invoke_def bind_def subscript_def
  lift_def try_except_def

lemmas stage_defs = pdf_stage_def url_stage_def merge_stage_def parse_step_def
  speaker_config_def speaker_configs_def voices_step_def podcast_step_def generate_body_def
  generate_def

lemmas handler_defs = error_gen_def accepted_def saved_as_def save_upload_def
  speaker_type_of_def speaker_upload_def locals_of_def generate_podcast_def speaker_audio_def
  closure_def run_def form_get_def file_true_def

lemmas text_defs = str_def strip_def is_space_def lower_def lower_cp_def path_join_def
  truthy_str_def fmt_def rsplit1_def allowed_file_def ALLOWED_AUDIO_EXTENSIONS_def
  ALLOWED_PDF_EXTENSIONS_def

lemmas demo_defs = demo_env_def failing_stream_env_def demo_request_def bare_request_def
  keyed_request_def custom_request_def

lemma fst_bind:
  "fst (bind m f) = fst m @ (case snd m of Next x \<Rightarrow> fst (f x) | _ \<Rightarrow> [])"
  by (simp add: bind_def split: outcome.splits)

lemma snd_bind:
  "snd (bind m f) =
     (case snd m of Next x \<Rightarrow> snd (f x) | Return r \<Rightarrow> Return r | Raise e \<Rightarrow> Raise e)"
  by (simp add: bind_def split: outcome.splits)

lemma bind_ret: "bind (ret x) f = f x"
  by (simp add: bind_def ret_def)

lemma bind_return: "bind (return r) f = return r"
  by (simp add: bind_def return_def)

lemma bind_yield: "bind (yield ev) f = (Yield ev # fst (f ()), snd (f ()))"
  by (simp add: bind_def yield_def)

lemma bind_yield_all: "bind (yield_all evs) f = (map Yield evs @ fst (f ()), snd (f ()))"
  by (simp add: bind_def yield_all_def)

subsection \<open>Streams that stop early\<close>

lemma type_simps:
  "is_type n (progress_event s m) \<longleftrightarrow> str n = str ''progress''"
  "is_type n (log_event m) \<longleftrightarrow> str n = str ''log''"
  "is_type n (error_event m) \<longleftrightarrow> str n = str ''error''"
  "is_type n (url_parse_warning_event m c) \<longleftrightarrow> str n = str ''url_parse_warning''"
  "is_type n (trace_id_event k t) \<longleftrightarrow> str n = str ''trace_id''"
  by (auto simp: is_type_def event_type_def progress_event_def log_event_def error_event_def
      url_parse_warning_event_def trace_id_event_def)

lemma calm_bind: "calm m \<Longrightarrow> (\<And>x. snd m = Next x \<Longrightarrow> calm (f x)) \<Longrightarrow> calm (bind m f)"
  by (auto simp: calm_def bind_def split: outcome.splits)

lemma calm_basic:
  "calm (ret x)" "calm (return r)" "calm (yield ev)" "calm (yield_all evs)"
  "calm (subscript k v)" "calm (lift res)"
  "calm (invoke (ParsePdf p) r1)" "calm (invoke (ParseUrl u) r2)"
  "calm (invoke (MergeContents a b c) r3)" "calm (invoke (Save p d) r4)"
  by (auto simp: calm_def gen_defs provider_call_def split: option.splits)

lemma calm_pdf_stage: "calm (pdf_stage env x)"
  unfolding pdf_stage_def
  by (auto intro!: calm_bind calm_basic split: option.splits)

lemma calm_url_stage: "calm (url_stage env x)"
  unfolding url_stage_def
  by (auto intro!: calm_bind calm_basic split: option.splits)

lemma calm_merge_stage: "calm (merge_stage env x u p)"
  unfolding merge_stage_def
  by (auto intro!: calm_bind calm_basic split: option.splits)

lemma calm_parse_step: "calm (parse_step env x)"
  unfolding parse_step_def
  by (intro calm_bind calm_basic calm_pdf_stage calm_url_stage calm_merge_stage)

lemma calm_speaker_config: "calm (speaker_config l t v a)"
  unfolding speaker_config_def
  by (auto intro!: calm_bind calm_basic)

lemma calm_speaker_configs: "calm (speaker_configs x)"
  unfolding speaker_configs_def
  by (intro calm_bind calm_basic calm_speaker_config)

lemma warns_bind: "warns m \<Longrightarrow> (\<And>x. snd m = Next x \<Longrightarrow> warns (f x)) \<Longrightarrow> warns (bind m f)"
  by (auto simp: warns_def bind_def split: outcome.splits)

lemma warns_basic:
  "warns (ret x)" "warns (yield ev)" "warns (yield_all evs)"
  "warns (subscript k v)" "warns (lift res)" "warns (invoke c r1)"
  "warns (bind (yield (error_event m)) (\<lambda>_. return r))"
  by (auto simp: warns_def gen_defs type_simps split: option.splits sum.splits)

lemma warns_pdf_stage: "warns (pdf_stage env x)"
  by (auto simp: warns_def pdf_stage_def gen_defs type_simps split: option.splits sum.splits)

lemma warns_url_stage: "warns (url_stage env x)"
  by (auto simp: warns_def url_stage_def gen_defs type_simps split: option.splits sum.splits)

lemma warns_merge_stage: "warns (merge_stage env x u p)"
  by (auto simp: warns_def merge_stage_def gen_defs type_simps split: option.splits sum.splits)

lemma warns_parse_step: "warns (parse_step env x)"
  unfolding parse_step_def
  by (intro warns_bind warns_basic warns_pdf_stage warns_url_stage warns_merge_stage)

lemma warns_speaker_config: "warns (speaker_config l t v a)"
  by (auto simp: warns_def speaker_config_def gen_defs type_simps split: option.splits sum.splits)

lemma warns_speaker_configs: "warns (speaker_configs x)"
  unfolding speaker_configs_def
  by (intro warns_bind warns_basic warns_speaker_config)

lemma warns_voices_step: "warns (voices_step env x cfgs)"
  by (auto simp: warns_def voices_step_def gen_defs type_simps split: option.splits sum.splits)

lemma warns_podcast_step: "warns (podcast_step env x m ids)"
  by (auto simp: warns_def podcast_step_def Let_def split: option.splits)

lemma warns_generate_body: "warns (generate_body env x)"
  unfolding generate_body_def
  by (intro warns_bind warns_basic warns_parse_step warns_speaker_configs warns_voices_step
      warns_podcast_step)

text \<open>Every stream that does not run to the end of its body carries an error event.\<close>

lemma generate_error_event:
  assumes "snd (generate_body env x) \<noteq> Next ()"
  shows "\<exists>ev. Yield ev \<in> set (fst (generate env x)) \<and> is_type ''error'' ev"
proof (cases "snd (generate_body env x)")
  case (Next u)
  with assms show ?thesis by simp
next
  case (Return r)
  with warns_generate_body [of env x] show ?thesis
    by (auto simp: warns_def generate_def try_except_def)
next
  case (Raise e)
  then show ?thesis
    by (auto simp: generate_def try_except_def yield_def type_simps)
qed

lemma calm_stopped:
  assumes "(\<forall>m. snd (parse_step env x) \<noteq> Next m) \<or> (\<forall>c. snd (speaker_configs x) \<noteq> Next c)"
  shows "calm (generate_body env x) \<and> snd (generate_body env x) \<noteq> Next ()"
proof -
  have c: "calm (generate_body env x)"
    unfolding generate_body_def using assms
    by (intro calm_bind calm_basic calm_parse_step calm_speaker_configs) auto
  have "snd (generate_body env x) \<noteq> Next ()"
    using assms by (auto simp: generate_body_def snd_bind yield_def split: outcome.splits)
  with c show ?thesis by simp
qed

lemma calm_generate: "calm (generate_body env x) \<Longrightarrow> calm (generate env x)"
  by (auto simp: calm_def generate_def try_except_def yield_def provider_call_def
      split: outcome.splits)

lemma parse_stops:
  assumes "sources_empty env x" and "no_content (merge_contents env [] [] [])"
  shows "snd (parse_step env x) \<noteq> Next m"
  using assms
  by (auto simp: parse_step_def sources_empty_def no_content_def snd_bind merge_stage_def
      yield_def invoke_def return_def ret_def split: outcome.splits sum.splits)

lemma config_stops:
  assumes "(speaker1_type x = str ''custom'' \<and> speaker1_audio_path x = None) \<or>
           (speaker2_type x = str ''custom'' \<and> speaker2_audio_path x = None)"
  shows "snd (speaker_configs x) \<noteq> Next c"
  using assms
  by (auto simp: speaker_configs_def speaker_config_def snd_bind yield_def return_def ret_def
      truthy_str_def str_def split: outcome.splits)

subsection \<open>The generator catches every exception\<close>

text \<open>
  Claim C4.  The generator of \<open>/api/generate_podcast\<close> never raises: it runs to its end or
  returns.  Whenever its body raises an exception \<open>e\<close> (from the PDF or URL parser, the
  merge, the voice preparation or the podcast generator), the stream is what the body
  yielded followed by one last event of type \<open>error\<close> whose message ends with \<open>str(e)\<close>,
  and the generator then ends normally.
\<close>

theorem generate_catches_exceptions:
  "(snd (generate env x) = Next () \<or> snd (generate env x) = Return ()) \<and>
   (\<forall>e. snd (generate_body env x) = Raise e \<longrightarrow>
      fst (generate env x) =
        fst (generate_body env x) @ [Yield (error_event (msg_generation_failed @ e))] \<and>
      event_type (error_event (msg_generation_failed @ e)) = Some (JStr (str ''error'')) \<and>
      snd (generate env x) = Next ())"
  by (cases "snd (generate_body env x)")
     (simp_all add: generate_def try_except_def yield_def event_type_def error_event_def)

theorem generate_catches_exceptions_witness:
  "snd (generate_body failing_stream_env (closure failing_stream_env (str ''u1'') demo_request))
     = Raise (str ''boom'') \<and>
   fst (generate failing_stream_env (closure failing_stream_env (str ''u1'') demo_request)) =
     fst (generate_body failing_stream_env (closure failing_stream_env (str ''u1'') demo_request))
       @ [Yield (error_event (msg_generation_failed @ str ''boom''))] \<and>
   snd (generate failing_stream_env (closure failing_stream_env (str ''u1'') demo_request))
     = Next ()"
proof -
  have raised:
    "snd (generate_body failing_stream_env (closure failing_stream_env (str ''u1'') demo_request))
       = Raise (str ''boom'')"
    by (simp add: gen_defs stage_defs handler_defs text_defs demo_defs no_content_marker_def)
  with generate_catches_exceptions
         [of failing_stream_env "closure failing_stream_env (str ''u1'') demo_request"]
  show ?thesis by blast
qed

subsection \<open>The request handler\<close>

lemma handler_no_key:
  "no_api_key req \<Longrightarrow> generate_podcast env u req = ([], Return (EventStream error_gen))"
  by (simp add: generate_podcast_def no_api_key_def return_def)

lemma save_upload_saves: "a \<in> set (fst (save_upload env req slot al pre)) \<Longrightarrow> is_save a"
  by (auto simp: save_upload_def gen_defs is_save_def split: option.splits sum.splits)

lemma save_upload_result:
  "snd (save_upload env req slot al pre) = Next v \<Longrightarrow>
     v = map_option (saved_as env pre) (accepted req slot al)"
  by (auto simp: save_upload_def gen_defs split: option.splits sum.splits)

lemma save_upload_no_return: "snd (save_upload env req slot al pre) \<noteq> Return r"
  by (auto simp: save_upload_def gen_defs split: option.splits sum.splits)

lemma speaker_upload_saves: "a \<in> set (fst (speaker_upload env req sid tag)) \<Longrightarrow> is_save a"
  by (auto simp: speaker_upload_def ret_def dest: save_upload_saves split: if_splits)

lemma speaker_upload_result:
  "snd (speaker_upload env req sid tag) = Next v \<Longrightarrow> v = speaker_audio env sid req tag"
  by (auto simp: speaker_upload_def speaker_audio_def ret_def dest: save_upload_result
      split: if_splits)

lemma speaker_upload_no_return: "snd (speaker_upload env req sid tag) \<noteq> Return r"
  by (auto simp: speaker_upload_def ret_def save_upload_no_return)

lemma handler_saves: "a \<in> set (fst (generate_podcast env u req)) \<Longrightarrow> is_save a"
  by (auto simp: generate_podcast_def fst_bind return_def
      dest: save_upload_saves speaker_upload_saves split: outcome.splits if_splits)

lemma handler_stream:
  assumes "\<not> no_api_key req" and "snd (generate_podcast env u req) = Return (EventStream g)"
  shows "g = generate env (closure env u req)"
  using assms
  by (auto simp: generate_podcast_def no_api_key_def snd_bind return_def closure_def
      save_upload_no_return speaker_upload_no_return
      dest!: save_upload_result speaker_upload_result split: outcome.splits)

lemma handler_outcome:
  "(\<exists>g. snd (generate_podcast env u req) = Return (EventStream g)) \<or>
   (\<exists>e. snd (generate_podcast env u req) = Raise e)"
  by (auto simp: generate_podcast_def snd_bind return_def save_upload_no_return
      speaker_upload_no_return split: outcome.splits)

lemma save_not_provider: "is_save a \<Longrightarrow> \<not> provider_call a"
  by (auto simp: is_save_def provider_call_def split: action.splits call.splits)

lemma closure_custom_without_audio:
  "custom_without_audio req (str ''speaker1'') \<Longrightarrow>
     speaker1_type (closure env u req) = str ''custom'' \<and>
     speaker1_audio_path (closure env u req) = None"
  "custom_without_audio req (str ''speaker2'') \<Longrightarrow>
     speaker2_type (closure env u req) = str ''custom'' \<and>
     speaker2_audio_path (closure env u req) = None"
  by (auto simp: custom_without_audio_def closure_def locals_of_def speaker_audio_def)

text \<open>
  What the handler does is fixed by the uploads it accepts and by whether their saves
  return: when every due save returns, the handler makes exactly these saves and returns
  the stream of the generator; when one raises, the handler raises (lines 103, 115 and 125
  are outside any \<open>try\<close>), and nothing it has done is an event.
\<close>

lemma save_upload_eq:
  "save_upload env req slot al pre =
     (case accepted req slot al of
        None \<Rightarrow> ([], Next None)
      | Some f \<Rightarrow>
          ([Invoke (Save (fst (saved_as env pre f)) (stream f))],
           case save env (fst (saved_as env pre f)) (stream f) of
             Inl e \<Rightarrow> Raise e
           | Inr ok \<Rightarrow> Next (Some (saved_as env pre f))))"
  by (simp add: save_upload_def gen_defs split: option.splits sum.splits)

lemma slot_saved:
  assumes "saves_return env (slot_save env pre (accepted req slot al))"
  shows "save_upload env req slot al pre =
           (save_actions (slot_save env pre (accepted req slot al)),
            Next (map_option (saved_as env pre) (accepted req slot al)))"
  using assms
  by (auto simp: save_upload_eq saves_return_def slot_save_def save_actions_def
      split: option.splits sum.splits)

lemma speaker_saved:
  assumes "saves_return env (speaker_due env u req tag)"
  shows "speaker_upload env req u tag =
           (save_actions (speaker_due env u req tag), Next (speaker_audio env u req tag))"
proof (cases "speaker_type_of req tag = str ''custom''")
  case True
  with assms have "saves_return env (slot_save env (u @ str ''_'' @ tag @ str ''_'')
      (accepted req (tag @ str ''_audio'') ALLOWED_AUDIO_EXTENSIONS))"
    by (simp add: speaker_due_def)
  from slot_saved [OF this] True show ?thesis
    by (simp add: speaker_upload_def speaker_due_def speaker_audio_def)
next
  case False
  then show ?thesis
    by (simp add: speaker_upload_def speaker_due_def speaker_audio_def ret_def save_actions_def)
qed

lemma saves_return_append:
  "saves_return env (ps @ qs) \<longleftrightarrow> saves_return env ps \<and> saves_return env qs"
  by (simp add: saves_return_def)

lemma handler_saved:
  assumes "\<not> no_api_key req" "saves_return env (due_saves env u req)"
  shows "generate_podcast env u req =
           (save_actions (due_saves env u req),
            Return (EventStream (generate env (closure env u req))))"
proof -
  from assms(2) have
    a: "saves_return env (slot_save env (u @ str ''_'')
          (accepted req (str ''pdf_file'') ALLOWED_PDF_EXTENSIONS))" and
    b: "saves_return env (speaker_due env u req (str ''speaker1''))" and
    c: "saves_return env (speaker_due env u req (str ''speaker2''))"
    by (simp_all add: due_saves_def saves_return_append)
  from assms(1) show ?thesis
    by (simp add: generate_podcast_def no_api_key_def slot_saved [OF a] speaker_saved [OF b]
        speaker_saved [OF c] bind_def return_def closure_def due_saves_def save_actions_def)
qed

lemma slot_returned:
  assumes "snd (save_upload env req slot al pre) = Next v"
  shows "saves_return env (slot_save env pre (accepted req slot al))"
  using assms
  by (auto simp: save_upload_eq saves_return_def slot_save_def split: option.splits sum.splits)

lemma speaker_returned:
  assumes "snd (speaker_upload env req u tag) = Next v"
  shows "saves_return env (speaker_due env u req tag)"
  using assms
  by (auto simp: speaker_upload_def speaker_due_def ret_def saves_return_def
      dest: slot_returned split: if_splits)

lemma handler_returned:
  assumes "\<not> no_api_key req" "snd (generate_podcast env u req) = Return (EventStream g)"
  shows "saves_return env (due_saves env u req)"
  using assms
  by (auto simp: generate_podcast_def no_api_key_def snd_bind return_def due_saves_def
      saves_return_append save_upload_no_return speaker_upload_no_return
      dest: slot_returned speaker_returned split: outcome.splits)

lemma handler_raises:
  assumes "\<not> no_api_key req" "\<not> saves_return env (due_saves env u req)"
  shows "\<exists>e. snd (generate_podcast env u req) = Raise e"
  using assms handler_outcome [of env u req] handler_returned [of req env u] by blast

lemma events_saves: "\<forall>a\<in>set as. is_save a \<Longrightarrow> events as = []"
  by (induction as) (auto simp: events_def is_save_def split: action.splits)

subsection \<open>Missing inputs\<close>

text \<open>
  Claim C1, as amended.  Take a request to \<open>/api/generate_podcast\<close> with a missing
  required input: no API key (after stripping), or the three content sources empty after
  parsing (with a merge helper that answers three empty sources with no content), or a
  speaker of type \<open>custom\<close> without an uploaded file of an allowed audio type.  Then nothing
  the request does is a call to voice preparation or podcast generation, and every event
  stream the handler returns contains an event of type \<open>error\<close> and ends normally.  Without
  an API key the handler saves nothing and returns the stream of the single error event.
  With an API key, when every save of an accepted upload returns, the handler makes
  exactly these saves and returns the stream of the generator, which therefore carries the
  error event; when a save raises, the handler raises, no stream exists and the request
  emits no event.
\<close>

theorem missing_input_error_event:
  assumes "no_api_key req \<or>
           (sources_empty env (closure env u req) \<and> no_content (merge_contents env [] [] [])) \<or>
           custom_without_audio req (str ''speaker1'') \<or>
           custom_without_audio req (str ''speaker2'')"
  shows "(\<forall>a\<in>set (run (generate_podcast env u req)). \<not> provider_call a) \<and>
         (\<forall>g. snd (generate_podcast env u req) = Return (EventStream g) \<longrightarrow>
            (\<exists>ev. Yield ev \<in> set (fst g) \<and> is_type ''error'' ev) \<and>
            (snd g = Next () \<or> snd g = Return ())) \<and>
         (no_api_key req \<longrightarrow> generate_podcast env u req = ([], Return (EventStream error_gen))) \<and>
         (\<not> no_api_key req \<and> saves_return env (due_saves env u req) \<longrightarrow>
            generate_podcast env u req =
              (save_actions (due_saves env u req),
               Return (EventStream (generate env (closure env u req))))) \<and>
         (\<not> no_api_key req \<and> \<not> saves_return env (due_saves env u req) \<longrightarrow>
            (\<exists>e. snd (generate_podcast env u req) = Raise e) \<and>
            events (run (generate_podcast env u req)) = [])"
proof (cases "no_api_key req")
  case True
  then show ?thesis
    by (simp add: handler_no_key run_def error_gen_def yield_def provider_call_def type_simps)
next
  case False
  let ?x = "closure env u req"
  from False assms have
    "(\<forall>m. snd (parse_step env ?x) \<noteq> Next m) \<or> (\<forall>c. snd (speaker_configs ?x) \<noteq> Next c)"
    using parse_stops [of env ?x] config_stops [of ?x] closure_custom_without_audio [of req env u]
    by blast
  then have stopped: "calm (generate_body env ?x)" "snd (generate_body env ?x) \<noteq> Next ()"
    using calm_stopped [of env ?x] by blast+
  have quiet: "\<forall>a\<in>set (fst (generate env ?x)). \<not> provider_call a"
    using calm_generate [OF stopped(1)] by (simp add: calm_def)
  have saves: "\<forall>a\<in>set (fst (generate_podcast env u req)). \<not> provider_call a"
    using handler_saves [of _ env u req] save_not_provider by blast
  have calls: "\<forall>a\<in>set (run (generate_podcast env u req)). \<not> provider_call a"
  proof (cases "snd (generate_podcast env u req)")
    case (Return r)
    then show ?thesis
      using saves quiet handler_stream [OF False, of env u] 
      by (cases r) (auto simp: run_def)
  qed (use saves in \<open>auto simp: run_def\<close>)
  have stream: "(\<exists>ev. Yield ev \<in> set (fst g) \<and> is_type ''error'' ev) \<and>
                (snd g = Next () \<or> snd g = Return ())"
    if "snd (generate_podcast env u req) = Return (EventStream g)" for g
  proof -
    from that have g: "g = generate env ?x" by (rule handler_stream [OF False])
    show ?thesis
      unfolding g using generate_error_event [OF stopped(2)]
      by (cases "snd (generate_body env ?x)") (auto simp: generate_def try_except_def yield_def)
  qed
  have saved: "generate_podcast env u req =
      (save_actions (due_saves env u req), Return (EventStream (generate env ?x)))"
    if "saves_return env (due_saves env u req)"
    using False that by (rule handler_saved)
  have raised: "(\<exists>e. snd (generate_podcast env u req) = Raise e) \<and>
      events (run (generate_podcast env u req)) = []"
    if n: "\<not> saves_return env (due_saves env u req)"
  proof -
    from handler_raises [OF False n] obtain e where
      e: "snd (generate_podcast env u req) = Raise e" by blast
    then have "run (generate_podcast env u req) = fst (generate_podcast env u req)"
      by (simp add: run_def)
    moreover have "\<forall>a\<in>set (fst (generate_podcast env u req)). is_save a"
      using handler_saves by blast
    ultimately show ?thesis using e events_saves by auto
  qed
  from calls stream False saved raised show ?thesis by blast
qed

text \<open>
  Claim C1 as stated fails when saving an upload raises: the request has an API key, a PDF
  and a speaker of type \<open>custom\<close> without audio; the save of the PDF (line 103) raises, so
  the handler raises before any stream exists, and no event of type \<open>error\<close> is emitted.
\<close>

theorem missing_input_save_raises_counterexample:
  "custom_without_audio custom_request (str ''speaker1'') \<and>
   generate_podcast full_disk_env (str ''u1'') custom_request =
     ([Invoke (Save (str ''uploads/u1_a.pdf'') [1, 2, 3])], Raise (str ''disk full'')) \<and>
   events (run (generate_podcast full_disk_env (str ''u1'') custom_request)) = []"
proof -
  have h: "generate_podcast full_disk_env (str ''u1'') custom_request =
     ([Invoke (Save (str ''uploads/u1_a.pdf'') [1, 2, 3])], Raise (str ''disk full''))"
    by (simp add: gen_defs handler_defs text_defs demo_defs full_disk_env_def)
  have c: "custom_without_audio custom_request (str ''speaker1'')"
    by (simp add: custom_without_audio_def handler_defs text_defs demo_defs)
  from h c show ?thesis by (simp add: run_def events_def)
qed

theorem missing_input_error_event_witness:
  "no_api_key bare_request \<and>
   generate_podcast demo_env (str ''u1'') bare_request = ([], Return (EventStream error_gen)) \<and>
   filter provider_call (run (generate_podcast demo_env (str ''u1'') bare_request)) = [] \<and>
   sources_empty demo_env (closure demo_env (str ''u1'') keyed_request) \<and>
   no_content (merge_contents demo_env [] [] []) \<and>
   filter provider_call (run (generate_podcast demo_env (str ''u1'') keyed_request)) = [] \<and>
   generate_podcast demo_env (str ''u1'') keyed_request =
     ([], Return (EventStream (generate demo_env (closure demo_env (str ''u1'') keyed_request)))) \<and>
   (\<exists>ev. Yield ev \<in> set (fst (generate demo_env (closure demo_env (str ''u1'') keyed_request)))
      \<and> is_type ''error'' ev) \<and>
   custom_without_audio custom_request (str ''speaker1'') \<and>
   filter provider_call (run (generate_podcast demo_env (str ''u1'') custom_request)) = [] \<and>
   generate_podcast demo_env (str ''u1'') custom_request =
     ([Invoke (Save (str ''uploads/u1_a.pdf'') [1, 2, 3])],
      Return (EventStream (generate demo_env (closure demo_env (str ''u1'') custom_request)))) \<and>
   (\<exists>ev. Yield ev \<in> set (fst (generate demo_env (closure demo_env (str ''u1'') custom_request)))
      \<and> is_type ''error'' ev) \<and>
   (\<exists>e. snd (generate_podcast full_disk_env (str ''u1'') custom_request) = Raise e) \<and>
   events (run (generate_podcast full_disk_env (str ''u1'') custom_request)) = []"
proof -
  have h1: "no_api_key bare_request"
    by (simp add: no_api_key_def form_get_def bare_request_def strip_def)
  have h2: "sources_empty demo_env (closure demo_env (str ''u1'') keyed_request)"
    by (simp add: sources_empty_def gen_defs stage_defs handler_defs text_defs demo_defs)
  have h2': "no_content (merge_contents demo_env [] [] [])"
    by (simp add: no_content_def demo_env_def)
  have k2: "\<not> no_api_key keyed_request"
    by (simp add: no_api_key_def form_get_def text_defs demo_defs)
  have d2: "due_saves demo_env (str ''u1'') keyed_request = []"
    by (simp add: due_saves_def speaker_due_def slot_save_def handler_defs text_defs demo_defs)
  have h3: "custom_without_audio custom_request (str ''speaker1'')"
    by (simp add: custom_without_audio_def handler_defs text_defs demo_defs)
  have k3: "\<not> no_api_key custom_request"
    by (simp add: no_api_key_def form_get_def text_defs demo_defs)
  have d3: "due_saves demo_env (str ''u1'') custom_request = [(str ''uploads/u1_a.pdf'', [1, 2, 3])]"
    "due_saves full_disk_env (str ''u1'') custom_request = [(str ''uploads/u1_a.pdf'', [1, 2, 3])]"
    by (simp_all add: due_saves_def speaker_due_def slot_save_def handler_defs text_defs demo_defs
        full_disk_env_def)
  have r2: "saves_return demo_env []" by (simp add: saves_return_def)
  have r3: "saves_return demo_env [(str ''uploads/u1_a.pdf'', [1, 2, 3])]"
    by (simp add: saves_return_def demo_env_def)
  have r4: "\<not> saves_return full_disk_env [(str ''uploads/u1_a.pdf'', [1, 2, 3])]"
    by (simp add: saves_return_def demo_env_def full_disk_env_def)
  note t1 = missing_input_error_event [of bare_request demo_env "str ''u1''"]
  note t2 = missing_input_error_event [of keyed_request demo_env "str ''u1''"]
  note t3 = missing_input_error_event [of custom_request demo_env "str ''u1''"]
  note t4 = missing_input_error_event [of custom_request full_disk_env "str ''u1''"]
  from h1 t1 have c1:
    "generate_podcast demo_env (str ''u1'') bare_request = ([], Return (EventStream error_gen))"
    "filter provider_call (run (generate_podcast demo_env (str ''u1'') bare_request)) = []"
    by (simp_all add: filter_empty_conv)
  from h2 h2' k2 t2 r2 have s2: "generate_podcast demo_env (str ''u1'') keyed_request =
     ([], Return (EventStream (generate demo_env (closure demo_env (str ''u1'') keyed_request))))"
    by (simp add: d2 save_actions_def)
  from h2 h2' t2 s2 have c2:
    "filter provider_call (run (generate_podcast demo_env (str ''u1'') keyed_request)) = []"
    "\<exists>ev. Yield ev \<in> set (fst (generate demo_env (closure demo_env (str ''u1'') keyed_request)))
      \<and> is_type ''error'' ev"
    by (simp_all add: filter_empty_conv)
  from h3 k3 t3 r3 have s3: "generate_podcast demo_env (str ''u1'') custom_request =
     ([Invoke (Save (str ''uploads/u1_a.pdf'') [1, 2, 3])],
      Return (EventStream (generate demo_env (closure demo_env (str ''u1'') custom_request))))"
    by (simp add: d3 save_actions_def)
  from h3 t3 s3 have c3:
    "filter provider_call (run (generate_podcast demo_env (str ''u1'') custom_request)) = []"
    "\<exists>ev. Yield ev \<in> set (fst (generate demo_env (closure demo_env (str ''u1'') custom_request)))
      \<and> is_type ''error'' ev"
    by (simp_all add: filter_empty_conv)
  from h3 k3 t4 r4 have c4:
    "\<exists>e. snd (generate_podcast full_disk_env (str ''u1'') custom_request) = Raise e"
    "events (run (generate_podcast full_disk_env (str ''u1'') custom_request)) = []"
    by (simp_all add: d3)
  from h1 h2 h2' h3 c1 c2 s2 c3 s3 c4 show ?thesis by blast
qed

subsection \<open>The types of the events on the stream\<close>

lemma yields_only_bind:
  "yields_only P m \<Longrightarrow> (\<And>x. snd m = Next x \<Longrightarrow> yields_only P (f x)) \<Longrightarrow>
     yields_only P (bind m f)"
  by (auto simp: yields_only_def bind_def split: outcome.splits)

lemma yields_only_mono: "yields_only P g \<Longrightarrow> (\<And>ev. P ev \<Longrightarrow> Q ev) \<Longrightarrow> yields_only Q g"
  by (auto simp: yields_only_def)

lemma own_pdf_stage: "yields_only own_type (pdf_stage env x)"
  by (auto simp: yields_only_def own_type_def pdf_stage_def gen_defs type_simps
      split: option.splits sum.splits)

lemma own_url_stage: "yields_only own_type (url_stage env x)"
  by (auto simp: yields_only_def own_type_def url_stage_def gen_defs type_simps
      split: option.splits sum.splits)

lemma own_merge_stage: "yields_only own_type (merge_stage env x u p)"
  by (auto simp: yields_only_def own_type_def merge_stage_def gen_defs type_simps
      split: option.splits sum.splits)

lemma own_yield_progress: "yields_only own_type (yield (progress_event s m))"
  by (simp add: yields_only_def own_type_def yield_def type_simps)

lemma own_parse_step: "yields_only own_type (parse_step env x)"
  unfolding parse_step_def
  by (intro yields_only_bind own_yield_progress own_pdf_stage own_url_stage own_merge_stage)

lemma own_speaker_config: "yields_only own_type (speaker_config l t v a)"
  by (auto simp: yields_only_def own_type_def speaker_config_def gen_defs type_simps)

lemma own_speaker_configs: "yields_only own_type (speaker_configs x)"
  unfolding speaker_configs_def
  by (intro yields_only_bind own_speaker_config) (simp add: yields_only_def ret_def)

lemma own_voices_step: "yields_only own_type (voices_step env x cfgs)"
  by (auto simp: yields_only_def own_type_def voices_step_def gen_defs type_simps
      split: option.splits sum.splits)

lemma podcast_step_events:
  "yields_only (\<lambda>ev. ev \<in> set (fst (generate_podcast_stream env m (fst ids) (snd ids)
      (session_id x) (user_api_key x)))) (podcast_step env x m ids)"
  by (auto simp: yields_only_def podcast_step_def Let_def)

lemma generate_body_events:
  "yields_only (\<lambda>ev. own_type ev \<or>
      (\<exists>m v1 v2. ev \<in> set (fst (generate_podcast_stream env m v1 v2
         (session_id x) (user_api_key x))))) (generate_body env x)"
  unfolding generate_body_def
  apply (intro yields_only_bind)
      apply (rule yields_only_mono [OF own_parse_step], simp)
     apply (rule yields_only_mono [OF own_yield_progress], simp)
    apply (rule yields_only_mono [OF own_speaker_configs], simp)
   apply (rule yields_only_mono [OF own_voices_step], simp)
  apply (rule yields_only_mono [OF podcast_step_events], blast)
  done

lemma generate_events:
  "yields_only (\<lambda>ev. own_type ev \<or>
      (\<exists>m v1 v2. ev \<in> set (fst (generate_podcast_stream env m v1 v2
         (session_id x) (user_api_key x))))) (generate env x)"
  using generate_body_events [of env x]
  by (auto simp: yields_only_def generate_def try_except_def yield_def own_type_def type_simps
      split: outcome.splits)

text \<open>
  Claim C2, as amended.  Every event on a stream that \<open>/api/generate_podcast\<close> returns
  has the type \<open>progress\<close>, \<open>log\<close>, \<open>error\<close>, \<open>trace_id\<close> or \<open>url_parse_warning\<close>, or is
  an event of the podcast generator (called with the request's session id and API key),
  which the stream passes on unchanged.
\<close>

theorem stream_event_types:
  assumes "snd (generate_podcast env u req) = Return (EventStream g)"
    and "Yield ev \<in> set (fst g)"
  shows "is_type ''progress'' ev \<or> is_type ''log'' ev \<or> is_type ''error'' ev \<or>
         is_type ''trace_id'' ev \<or> is_type ''url_parse_warning'' ev \<or>
         (\<exists>m v1 v2. ev \<in> set (fst (generate_podcast_stream env m v1 v2 u
            (strip (form_get req (str ''api_key'') [])))))"
proof (cases "no_api_key req")
  case True
  with assms show ?thesis
    by (auto simp: handler_no_key error_gen_def yield_def type_simps)
next
  case False
  with assms have "g = generate env (closure env u req)" by (simp add: handler_stream)
  with assms(2) generate_events [of env "closure env u req"] show ?thesis
    by (auto simp: yields_only_def own_type_def closure_def locals_of_def)
qed

text \<open>
  Claim C2 as stated fails: when the URL parser reports a failure, the stream carries an
  event of type \<open>url_parse_warning\<close>, which is none of \<open>progress\<close>, \<open>log\<close>, \<open>error\<close> and
  \<open>trace_id\<close>.
\<close>

theorem url_warning_event_counterexample:
  "snd (generate_podcast demo_env (str ''u1'') demo_request) =
     Return (EventStream (generate demo_env (closure demo_env (str ''u1'') demo_request))) \<and>
   Yield (url_parse_warning_event (str ''timeout'') (str ''unknown''))
     \<in> set (fst (generate demo_env (closure demo_env (str ''u1'') demo_request))) \<and>
   \<not> claimed_type (url_parse_warning_event (str ''timeout'') (str ''unknown''))"
  by (simp add: gen_defs stage_defs handler_defs text_defs demo_defs no_content_marker_def
      claimed_type_def type_simps)

theorem stream_event_types_witness:
  "snd (generate_podcast demo_env (str ''u1'') demo_request) =
     Return (EventStream (generate demo_env (closure demo_env (str ''u1'') demo_request))) \<and>
   Yield (log_event (str ''voices ready''))
     \<in> set (fst (generate demo_env (closure demo_env (str ''u1'') demo_request))) \<and>
   is_type ''log'' (log_event (str ''voices ready''))"
proof -
  have s: "snd (generate_podcast demo_env (str ''u1'') demo_request) =
     Return (EventStream (generate demo_env (closure demo_env (str ''u1'') demo_request)))"
    by (simp add: gen_defs handler_defs text_defs demo_defs)
  have y: "Yield (log_event (str ''voices ready''))
     \<in> set (fst (generate demo_env (closure demo_env (str ''u1'') demo_request)))"
    by (simp add: gen_defs stage_defs handler_defs text_defs demo_defs no_content_marker_def)
  from stream_event_types [OF s y] s y show ?thesis
    by (simp add: type_simps)
qed

subsection \<open>The order of the events\<close>

lemma events_append: "events (as @ bs) = events as @ events bs"
  by (simp add: events_def)

lemma events_Cons:
  "events (Yield ev # as) = ev # events as" "events (Invoke c # as) = events as"
  "events [] = []"
  by (simp_all add: events_def)

lemma events_map_Yield: "events (map Yield evs) = evs" "events (map (Yield \<circ> f) xs) = map f xs"
  by (induction evs, simp_all add: events_def) (induction xs, simp_all)

lemma bind_Next:
  assumes "snd (bind m f) = Next y"
  shows "\<exists>x. snd m = Next x \<and> snd (f x) = Next y \<and> fst (bind m f) = fst m @ fst (f x)"
  using assms by (cases "snd m") (simp_all add: bind_def)

lemma podcast_step_events_eq:
  "events (fst (podcast_step env x m ids)) =
     fst (generate_podcast_stream env m (fst ids) (snd ids) (session_id x) (user_api_key x))"
  by (simp add: podcast_step_def Let_def events_Cons events_map_Yield)

lemma saveless_bind:
  "saveless m \<Longrightarrow> (\<And>x. snd m = Next x \<Longrightarrow> saveless (f x)) \<Longrightarrow> saveless (bind m f)"
  by (auto simp: saveless_def bind_def split: outcome.splits)

lemma saveless_stages:
  "saveless (pdf_stage env x)" "saveless (url_stage env x)" "saveless (merge_stage env x u p)"
  "saveless (speaker_config l t v a)" "saveless (voices_step env x cfgs)"
  "saveless (podcast_step env x m ids)" "saveless (yield ev)" "saveless (ret y)"
  by (auto simp: saveless_def pdf_stage_def url_stage_def merge_stage_def speaker_config_def
      voices_step_def podcast_step_def gen_defs is_save_def Let_def
      split: option.splits sum.splits if_splits)

lemma saveless_generate: "saveless (generate env x)"
proof -
  have "saveless (generate_body env x)"
    unfolding generate_body_def parse_step_def speaker_configs_def
    by (intro saveless_bind saveless_stages)
  then show ?thesis
    by (auto simp: saveless_def generate_def try_except_def yield_def is_save_def
        split: outcome.splits)
qed

text \<open>
  The events of each stage when the stage runs to its end, and from them the events of a
  body that runs to its end.
\<close>

lemma pdf_stage_Next:
  "snd (pdf_stage env x) = Next c \<Longrightarrow> events (fst (pdf_stage env x)) = pdf_log_events env x"
  by (auto simp: pdf_stage_def pdf_log_events_def gen_defs events_def truthy_str_def fmt_def
      comp_def split: option.splits sum.splits if_splits)

lemma url_stage_Next:
  "snd (url_stage env x) = Next c \<Longrightarrow> events (fst (url_stage env x)) = url_log_events env x"
  by (auto simp: url_stage_def url_log_events_def gen_defs events_def fmt_def comp_def
      split: option.splits sum.splits if_splits)

lemma merge_stage_Next:
  "snd (merge_stage env x u p) = Next m \<Longrightarrow>
     events (fst (merge_stage env x u p)) =
       [log_event (msg_parsed_prefix @ digits (length m) @ msg_parsed_suffix)]"
  by (auto simp: merge_stage_def gen_defs events_def split: sum.splits if_splits)

lemma parse_step_events:
  assumes "snd (parse_step env x) = Next m"
  shows "events (fst (parse_step env x)) =
           progress_event (str ''parsing_content'') msg_parsing_content
           # parsing_log_events env x m"
proof -
  let ?rest = "bind (pdf_stage env x) (\<lambda>pdf_content.
               bind (url_stage env x) (\<lambda>url_content.
               merge_stage env x url_content pdf_content))"
  have ps: "parse_step env x =
        (Yield (progress_event (str ''parsing_content'') msg_parsing_content) # fst ?rest,
         snd ?rest)"
    by (simp add: parse_step_def bind_yield)
  with assms have "snd ?rest = Next m" by simp
  then obtain p where
    p: "snd (pdf_stage env x) = Next p" and
    r1: "snd (bind (url_stage env x) (\<lambda>url_content. merge_stage env x url_content p)) = Next m" and
    f1: "fst ?rest = fst (pdf_stage env x) @
           fst (bind (url_stage env x) (\<lambda>url_content. merge_stage env x url_content p))"
    by (blast dest: bind_Next)
  from r1 obtain c where
    c: "snd (url_stage env x) = Next c" and
    r2: "snd (merge_stage env x c p) = Next m" and
    f2: "fst (bind (url_stage env x) (\<lambda>url_content. merge_stage env x url_content p)) =
           fst (url_stage env x) @ fst (merge_stage env x c p)"
    by (blast dest: bind_Next)
  show ?thesis
    by (simp add: ps f1 f2 events_Cons events_append pdf_stage_Next [OF p] url_stage_Next [OF c]
        merge_stage_Next [OF r2] parsing_log_events_def)
qed

lemma speaker_config_Next:
  "snd (speaker_config label t v a) = Next cfg \<Longrightarrow>
     events (fst (speaker_config label t v a)) =
       (if t = str ''custom'' then [log_event (label @ msg_audio_uploaded)] else [])"
  by (auto simp: speaker_config_def gen_defs events_def str_def split: if_splits)

lemma events_ret: "events (fst (ret v)) = []"
  by (simp add: ret_def events_def)

lemma speaker_configs_Next:
  assumes "snd (speaker_configs x) = Next cfgs"
  shows "events (fst (speaker_configs x)) =
           (if speaker1_type x = str ''custom''
            then [log_event (str ''Speaker1'' @ msg_audio_uploaded)] else [])
           @ (if speaker2_type x = str ''custom''
              then [log_event (str ''Speaker2'' @ msg_audio_uploaded)] else [])"
proof -
  let ?s1 = "speaker_config (str ''Speaker1'') (speaker1_type x) (speaker1_voice_name x)
             (speaker1_audio_path x)"
  let ?s2 = "speaker_config (str ''Speaker2'') (speaker2_type x) (speaker2_voice_name x)
             (speaker2_audio_path x)"
  from assms obtain c1 where
    c1: "snd ?s1 = Next c1" and
    r1: "snd (bind ?s2 (\<lambda>speaker2_config. ret (c1, speaker2_config))) = Next cfgs" and
    f1: "fst (speaker_configs x) =
           fst ?s1 @ fst (bind ?s2 (\<lambda>speaker2_config. ret (c1, speaker2_config)))"
    unfolding speaker_configs_def by (blast dest: bind_Next)
  from r1 obtain c2 where
    c2: "snd ?s2 = Next c2" and
    f2: "fst (bind ?s2 (\<lambda>speaker2_config. ret (c1, speaker2_config))) =
           fst ?s2 @ fst (ret (c1, c2) :: (config \<times> config, unit) gen)"
    by (blast dest: bind_Next)
  show ?thesis
    by (simp add: f1 f2 events_append speaker_config_Next [OF c1] speaker_config_Next [OF c2]
        events_ret)
qed

lemma voices_step_Next:
  assumes "snd (voices_step env x cfgs) = Next ids"
  shows "\<exists>vr. prepare_voices env (fst cfgs) (snd cfgs) (user_api_key x) = Inr vr \<and>
           ids = (speaker1 vr, speaker2 vr) \<and>
           events (fst (voices_step env x cfgs)) =
             map log_event (vlogs vr)
             @ map (\<lambda>kt. trace_id_event (fst kt) (snd kt))
                 (filter (\<lambda>kt. truthy (snd kt)) (trace_ids vr))"
  using assms
  by (auto simp: voices_step_def gen_defs events_def comp_def
      split: option.splits sum.splits if_splits)

lemma generate_body_sequence:
  assumes "snd (generate_body env x) = Next ()"
  shows "\<exists>m cfgs vr.
           snd (parse_step env x) = Next m \<and>
           snd (speaker_configs x) = Next cfgs \<and>
           prepare_voices env (fst cfgs) (snd cfgs) (user_api_key x) = Inr vr \<and>
           events (fst (generate_body env x)) =
             progress_event (str ''parsing_content'') msg_parsing_content
             # parsing_log_events env x m
             @ progress_event (str ''preparing_voices'') msg_preparing_voices
             # voice_log_events x vr
             @ fst (generate_podcast_stream env m (speaker1 vr) (speaker2 vr)
                      (session_id x) (user_api_key x))"
proof -
  from assms obtain m where
    m: "snd (parse_step env x) = Next m" and
    r1: "snd (bind (yield (progress_event (str ''preparing_voices'') msg_preparing_voices))
             (\<lambda>_. bind (speaker_configs x) (\<lambda>cfgs. bind (voices_step env x cfgs)
                (\<lambda>ids. podcast_step env x m ids)))) = Next ()" and
    f1: "fst (generate_body env x) = fst (parse_step env x) @
           fst (bind (yield (progress_event (str ''preparing_voices'') msg_preparing_voices))
             (\<lambda>_. bind (speaker_configs x) (\<lambda>cfgs. bind (voices_step env x cfgs)
                (\<lambda>ids. podcast_step env x m ids))))"
    unfolding generate_body_def by (blast dest: bind_Next)
  let ?k = "bind (speaker_configs x) (\<lambda>cfgs. bind (voices_step env x cfgs)
                (\<lambda>ids. podcast_step env x m ids))"
  from r1 have r2: "snd ?k = Next ()" by (simp add: bind_yield)
  then obtain cfgs where
    c: "snd (speaker_configs x) = Next cfgs" and
    r3: "snd (bind (voices_step env x cfgs) (\<lambda>ids. podcast_step env x m ids)) = Next ()" and
    f2: "fst ?k = fst (speaker_configs x) @
           fst (bind (voices_step env x cfgs) (\<lambda>ids. podcast_step env x m ids))"
    by (blast dest: bind_Next)
  from r3 obtain ids where
    i: "snd (voices_step env x cfgs) = Next ids" and
    f3: "fst (bind (voices_step env x cfgs) (\<lambda>ids. podcast_step env x m ids)) =
           fst (voices_step env x cfgs) @ fst (podcast_step env x m ids)"
    by (blast dest: bind_Next)
  from voices_step_Next [OF i] obtain vr where
    vr: "prepare_voices env (fst cfgs) (snd cfgs) (user_api_key x) = Inr vr" and
    ids: "ids = (speaker1 vr, speaker2 vr)" and
    ve: "events (fst (voices_step env x cfgs)) =
             map log_event (vlogs vr)
             @ map (\<lambda>kt. trace_id_event (fst kt) (snd kt))
                 (filter (\<lambda>kt. truthy (snd kt)) (trace_ids vr))"
    by blast
  have "events (fst (generate_body env x)) =
          progress_event (str ''parsing_content'') msg_parsing_content
          # parsing_log_events env x m
          @ progress_event (str ''preparing_voices'') msg_preparing_voices
          # voice_log_events x vr
          @ fst (generate_podcast_stream env m (speaker1 vr) (speaker2 vr)
                   (session_id x) (user_api_key x))"
    by (simp add: f1 f2 f3 bind_yield events_append events_Cons podcast_step_events_eq
        parse_step_events [OF m] speaker_configs_Next [OF c] ve ids voice_log_events_def)
  with m c vr show ?thesis by blast
qed

lemma parsing_log_types:
  "\<forall>ev\<in>set (parsing_log_events env x m). is_type ''log'' ev \<or> is_type ''url_parse_warning'' ev"
  by (auto simp: parsing_log_events_def pdf_log_events_def url_log_events_def type_simps
      split: sum.splits if_splits)

lemma voice_log_types:
  "\<forall>ev\<in>set (voice_log_events x vr). is_type ''log'' ev \<or> is_type ''trace_id'' ev"
  by (auto simp: voice_log_events_def type_simps)

text \<open>
  Claim C6.  Take a request with an API key whose handler returns its stream and whose
  generator runs to the end of its body (a successful stream).  Everything the request
  does is, first, the saves of the accepted uploads, each of which has returned, and then
  the actions of the generator, which saves nothing.  The events of the stream are exactly,
  in this order: the progress event of step \<open>parsing_content\<close>; the log events of content
  parsing (the PDF's, the URL's with the warning of a failing URL, the one that reports
  the merged content), each of type \<open>log\<close> or \<open>url_parse_warning\<close>; the progress event of
  step \<open>preparing_voices\<close>; the events of voice preparation (the logs of the uploaded
  speaker audios, then the logs and the trace ids of the prepared voices), each of type
  \<open>log\<close> or \<open>trace_id\<close>; the events of the podcast generator, called with the merged
  content and the prepared voices.
\<close>

theorem stream_order:
  assumes "\<not> no_api_key req"
    and "snd (generate_podcast env u req) = Return (EventStream g)"
    and "snd (generate_body env (closure env u req)) = Next ()"
  shows "\<exists>m cfgs vr.
           run (generate_podcast env u req) = save_actions (due_saves env u req) @ fst g \<and>
           saves_return env (due_saves env u req) \<and>
           (\<forall>a\<in>set (fst g). \<not> is_save a) \<and>
           snd (parse_step env (closure env u req)) = Next m \<and>
           snd (speaker_configs (closure env u req)) = Next cfgs \<and>
           prepare_voices env (fst cfgs) (snd cfgs) (strip (form_get req (str ''api_key'') []))
             = Inr vr \<and>
           events (fst g) =
             progress_event (str ''parsing_content'') msg_parsing_content
             # parsing_log_events env (closure env u req) m
             @ progress_event (str ''preparing_voices'') msg_preparing_voices
             # voice_log_events (closure env u req) vr
             @ fst (generate_podcast_stream env m (speaker1 vr) (speaker2 vr) u
                      (strip (form_get req (str ''api_key'') []))) \<and>
           (\<forall>ev\<in>set (parsing_log_events env (closure env u req) m).
              is_type ''log'' ev \<or> is_type ''url_parse_warning'' ev) \<and>
           (\<forall>ev\<in>set (voice_log_events (closure env u req) vr).
              is_type ''log'' ev \<or> is_type ''trace_id'' ev)"
proof -
  let ?x = "closure env u req"
  have g: "g = generate env ?x" using assms(1,2) by (rule handler_stream)
  have gb: "generate env ?x = generate_body env ?x"
    using assms(3) by (simp add: generate_def try_except_def)
  have sr: "saves_return env (due_saves env u req)"
    using assms(1,2) by (rule handler_returned)
  have r: "run (generate_podcast env u req) = save_actions (due_saves env u req) @ fst g"
    by (simp add: handler_saved [OF assms(1) sr] run_def g)
  have n: "\<forall>a\<in>set (fst g). \<not> is_save a"
    using saveless_generate [of env ?x] by (simp add: g saveless_def)
  have ids: "session_id ?x = u" "user_api_key ?x = strip (form_get req (str ''api_key'') [])"
    by (simp_all add: closure_def locals_of_def)
  from generate_body_sequence [OF assms(3)] r sr n parsing_log_types voice_log_types
  show ?thesis
    unfolding g gb ids by blast
qed

theorem stream_order_witness:
  "\<not> no_api_key demo_request \<and>
   snd (generate_podcast demo_env (str ''u1'') demo_request) =
     Return (EventStream (generate demo_env (closure demo_env (str ''u1'') demo_request))) \<and>
   snd (generate_body demo_env (closure demo_env (str ''u1'') demo_request)) = Next () \<and>
   save_actions (due_saves demo_env (str ''u1'') demo_request) =
     [Invoke (Save (str ''uploads/u1_a.PDF'') [1, 2, 3])] \<and>
   events (fst (generate demo_env (closure demo_env (str ''u1'') demo_request))) =
     [progress_event (str ''parsing_content'') msg_parsing_content,
      log_event (msg_uploaded_pdf @ str ''a.PDF''),
      log_event (str ''pdf parsed''),
      log_event (msg_start_url @ str ''http://x''),
      url_parse_warning_event (str ''timeout'') (str ''unknown''),
      log_event (str ''fetch failed''),
      log_event (msg_parsed_prefix @ digits (length (str ''hello'' @ str ''pdf text'')) @ msg_parsed_suffix),
      progress_event (str ''preparing_voices'') msg_preparing_voices,
      log_event (str ''voices ready''),
      trace_id_event (str ''speaker1_clone'') (JStr (str ''t1'')),
      [(str ''type'', JStr (str ''complete''))]] \<and>
   (\<exists>m cfgs vr.
      run (generate_podcast demo_env (str ''u1'') demo_request) =
        save_actions (due_saves demo_env (str ''u1'') demo_request) @
        fst (generate demo_env (closure demo_env (str ''u1'') demo_request)) \<and>
      saves_return demo_env (due_saves demo_env (str ''u1'') demo_request) \<and>
      (\<forall>a\<in>set (fst (generate demo_env (closure demo_env (str ''u1'') demo_request))).
         \<not> is_save a) \<and>
      snd (parse_step demo_env (closure demo_env (str ''u1'') demo_request)) = Next m \<and>
      snd (speaker_configs (closure demo_env (str ''u1'') demo_request)) = Next cfgs \<and>
      prepare_voices demo_env (fst cfgs) (snd cfgs)
        (strip (form_get demo_request (str ''api_key'') [])) = Inr vr \<and>
      events (fst (generate demo_env (closure demo_env (str ''u1'') demo_request))) =
        progress_event (str ''parsing_content'') msg_parsing_content
        # parsing_log_events demo_env (closure demo_env (str ''u1'') demo_request) m
        @ progress_event (str ''preparing_voices'') msg_preparing_voices
        # voice_log_events (closure demo_env (str ''u1'') demo_request) vr
        @ fst (generate_podcast_stream demo_env m (speaker1 vr) (speaker2 vr) (str ''u1'')
                 (strip (form_get demo_request (str ''api_key'') []))) \<and>
      (\<forall>ev\<in>set (parsing_log_events demo_env (closure demo_env (str ''u1'') demo_request) m).
         is_type ''log'' ev \<or> is_type ''url_parse_warning'' ev) \<and>
      (\<forall>ev\<in>set (voice_log_events (closure demo_env (str ''u1'') demo_request) vr).
         is_type ''log'' ev \<or> is_type ''trace_id'' ev))"
proof -
  have h1: "\<not> no_api_key demo_request"
    by (simp add: no_api_key_def form_get_def text_defs demo_defs)
  have h2: "snd (generate_podcast demo_env (str ''u1'') demo_request) =
     Return (EventStream (generate demo_env (closure demo_env (str ''u1'') demo_request)))"
    by (simp add: gen_defs handler_defs text_defs demo_defs)
  have h3: "snd (generate_body demo_env (closure demo_env (str ''u1'') demo_request)) = Next ()"
    by (simp add: gen_defs stage_defs handler_defs text_defs demo_defs no_content_marker_def)
  have h4: "events (fst (generate demo_env (closure demo_env (str ''u1'') demo_request))) =
     [progress_event (str ''parsing_content'') msg_parsing_content,
      log_event (msg_uploaded_pdf @ str ''a.PDF''),
      log_event (str ''pdf parsed''),
      log_event (msg_start_url @ str ''http://x''),
      url_parse_warning_event (str ''timeout'') (str ''unknown''),
      log_event (str ''fetch failed''),
      log_event (msg_parsed_prefix @ digits (length (str ''hello'' @ str ''pdf text'')) @ msg_parsed_suffix),
      progress_event (str ''preparing_voices'') msg_preparing_voices,
      log_event (str ''voices ready''),
      trace_id_event (str ''speaker1_clone'') (JStr (str ''t1'')),
      [(str ''type'', JStr (str ''complete''))]]"
    by (simp add: gen_defs stage_defs handler_defs text_defs demo_defs no_content_marker_def
        events_def)
  have h5: "save_actions (due_saves demo_env (str ''u1'') demo_request) =
     [Invoke (Save (str ''uploads/u1_a.PDF'') [1, 2, 3])]"
    by (simp add: save_actions_def due_saves_def speaker_due_def slot_save_def handler_defs
        text_defs demo_defs)
  from h1 h2 h3 h5 h4 stream_order [OF h1 h2 h3] show ?thesis
    by (intro conjI) assumption+
qed

subsection \<open>A failing URL\<close>
















subsection \<open>Which uploads are saved\<close>

lemma after_last_dot:
  assumes "name = pre @ [46] @ ext" "46 \<notin> set ext"
  shows "rev (takeWhile (\<lambda>c. c \<noteq> 46) (rev name)) = ext"
proof -
  have "takeWhile (\<lambda>c. c \<noteq> 46) (rev ext @ 46 # rev pre) = rev ext"
    using assms(2) by (subst takeWhile_append2) auto
  with assms(1) show ?thesis by simp
qed

lemma split_at_last_dot:
  assumes "(46::nat) \<in> set name"
  shows "name = rev (tl (dropWhile (\<lambda>c. c \<noteq> 46) (rev name))) @ [46]
            @ rev (takeWhile (\<lambda>c. c \<noteq> 46) (rev name)) \<and>
         46 \<notin> set (rev (takeWhile (\<lambda>c. c \<noteq> 46) (rev name)))"
proof -
  let ?P = "\<lambda>c::nat. c \<noteq> 46"
  from assms have "dropWhile ?P (rev name) \<noteq> []" by (simp add: dropWhile_eq_Nil_conv)
  then obtain y ys where d: "dropWhile ?P (rev name) = y # ys" by (cases "dropWhile ?P (rev name)") auto
  then have y: "y = 46" using hd_dropWhile [of ?P "rev name"] by auto
  have "rev name = takeWhile ?P (rev name) @ dropWhile ?P (rev name)" by simp
  then have "rev (rev name) = rev (takeWhile ?P (rev name) @ 46 # ys)" using d y by simp
  then have "name = rev ys @ [46] @ rev (takeWhile ?P (rev name))" by simp
  moreover have "46 \<notin> set (takeWhile ?P (rev name))" by (auto dest: set_takeWhileD)
  ultimately show ?thesis using d by simp
qed

lemma allowed_file_iff: "allowed_file name allowed \<longleftrightarrow> has_allowed_extension name allowed"
proof
  assume a: "allowed_file name allowed"
  then have dot: "46 \<in> set name" by (auto simp: allowed_file_def split: if_splits)
  with a have l: "lower (rev (takeWhile (\<lambda>c. c \<noteq> 46) (rev name))) \<in> allowed"
    by (simp add: allowed_file_def rsplit1_def)
  from split_at_last_dot [OF dot] l show "has_allowed_extension name allowed"
    unfolding has_allowed_extension_def by blast
next
  assume "has_allowed_extension name allowed"
  then obtain pre ext where n: "name = pre @ [46] @ ext" "46 \<notin> set ext" "lower ext \<in> allowed"
    by (auto simp: has_allowed_extension_def)
  then have "46 \<in> set name" by simp
  with after_last_dot [OF n(1,2)] n(3) show "allowed_file name allowed"
    by (simp add: allowed_file_def rsplit1_def)
qed


lemma save_upload_only_allowed:
  assumes "Invoke (Save path data) \<in> set (fst (save_upload env req slot allowed prefix))"
  shows "\<exists>f. files req slot = Some f \<and> has_allowed_extension (filename f) allowed \<and>
             data = stream f \<and>
             path = path_join (UPLOAD_DIR env) (prefix @ secure_filename env (filename f))"
  using assms
  by (auto simp: save_upload_def accepted_def saved_as_def gen_defs allowed_file_iff
      split: option.splits if_splits sum.splits)

lemma speaker_upload_only_allowed:
  assumes "Invoke (Save path data) \<in> set (fst (speaker_upload env req u tag))"
  shows "\<exists>f. files req (tag @ str ''_audio'') = Some f \<and>
             has_allowed_extension (filename f) ALLOWED_AUDIO_EXTENSIONS \<and> data = stream f \<and>
             path = path_join (UPLOAD_DIR env)
                      (u @ (str ''_'' @ tag @ str ''_'') @ secure_filename env (filename f))"
proof (cases "speaker_type_of req tag = str ''custom''")
  case True
  with assms save_upload_only_allowed
         [of path data env req "tag @ str ''_audio''" ALLOWED_AUDIO_EXTENSIONS
            "u @ str ''_'' @ tag @ str ''_''"]
  show ?thesis by (simp add: speaker_upload_def)
next
  case False
  with assms show ?thesis by (simp add: speaker_upload_def ret_def)
qed

lemma handler_actions:
  assumes "a \<in> set (fst (generate_podcast env u req))"
  shows "a \<in> set (fst (save_upload env req (str ''pdf_file'') ALLOWED_PDF_EXTENSIONS
                         (u @ str ''_'') :: ((pystr \<times> pystr) option, response) gen)) \<or>
         a \<in> set (fst (speaker_upload env req u (str ''speaker1'')
                         :: ((pystr \<times> pystr) option, response) gen)) \<or>
         a \<in> set (fst (speaker_upload env req u (str ''speaker2'')
                         :: ((pystr \<times> pystr) option, response) gen))"
  using assms
  by (auto simp: generate_podcast_def fst_bind return_def split: outcome.splits if_splits)

lemma handler_only_allowed:
  assumes "Invoke (Save path data) \<in> set (fst (generate_podcast env u req))"
  shows "\<exists>slot allowed f prefix. (slot, allowed) \<in> set upload_slots \<and>
            files req slot = Some f \<and> has_allowed_extension (filename f) allowed \<and>
            data = stream f \<and>
            path = path_join (UPLOAD_DIR env) (u @ prefix @ secure_filename env (filename f))"
proof -
  have slots:
    "(str ''pdf_file'', ALLOWED_PDF_EXTENSIONS) \<in> set upload_slots"
    "(str ''speaker1'' @ str ''_audio'', ALLOWED_AUDIO_EXTENSIONS) \<in> set upload_slots"
    "(str ''speaker2'' @ str ''_audio'', ALLOWED_AUDIO_EXTENSIONS) \<in> set upload_slots"
    by (simp_all add: upload_slots_def str_def)
  from handler_actions [OF assms] consider
      "Invoke (Save path data) \<in> set (fst (save_upload env req (str ''pdf_file'')
          ALLOWED_PDF_EXTENSIONS (u @ str ''_'') :: ((pystr \<times> pystr) option, response) gen))"
    | "Invoke (Save path data) \<in> set (fst (speaker_upload env req u (str ''speaker1'')
          :: ((pystr \<times> pystr) option, response) gen))"
    | "Invoke (Save path data) \<in> set (fst (speaker_upload env req u (str ''speaker2'')
          :: ((pystr \<times> pystr) option, response) gen))"
    by blast
  then show ?thesis
  proof cases
    case 1
    from save_upload_only_allowed [OF this] obtain f where
      "files req (str ''pdf_file'') = Some f"
      "has_allowed_extension (filename f) ALLOWED_PDF_EXTENSIONS" "data = stream f"
      "path = path_join (UPLOAD_DIR env) (u @ str ''_'' @ secure_filename env (filename f))"
      by auto
    with slots(1) show ?thesis by blast
  next
    case 2
    from speaker_upload_only_allowed [OF this] obtain f where
      "files req (str ''speaker1'' @ str ''_audio'') = Some f"
      "has_allowed_extension (filename f) ALLOWED_AUDIO_EXTENSIONS" "data = stream f"
      "path = path_join (UPLOAD_DIR env)
          (u @ (str ''_'' @ str ''speaker1'' @ str ''_'') @ secure_filename env (filename f))"
      by auto
    with slots(2) show ?thesis by blast
  next
    case 3
    from speaker_upload_only_allowed [OF this] obtain f where
      "files req (str ''speaker2'' @ str ''_audio'') = Some f"
      "has_allowed_extension (filename f) ALLOWED_AUDIO_EXTENSIONS" "data = stream f"
      "path = path_join (UPLOAD_DIR env)
          (u @ (str ''_'' @ str ''speaker2'' @ str ''_'') @ secure_filename env (filename f))"
      by auto
    with slots(3) show ?thesis by blast
  qed
qed

lemma run_saves_in_handler:
  assumes "Invoke (Save path data) \<in> set (run (generate_podcast env u req))"
  shows "Invoke (Save path data) \<in> set (fst (generate_podcast env u req))"
proof (cases "no_api_key req")
  case True
  with assms show ?thesis by (simp add: handler_no_key run_def error_gen_def yield_def)
next
  case False
  show ?thesis
  proof (cases "snd (generate_podcast env u req)")
    case (Return r)
    show ?thesis
    proof (cases r)
      case (EventStream g)
      with Return False have "g = generate env (closure env u req)" by (simp add: handler_stream)
      with saveless_generate [of env "closure env u req"]
      have "Invoke (Save path data) \<notin> set (fst g)" by (auto simp: saveless_def is_save_def)
      with assms Return EventStream show ?thesis by (simp add: run_def)
    next
      case (Jsonify j)
      with assms Return show ?thesis by (simp add: run_def)
    qed
  qed (use assms in \<open>simp_all add: run_def\<close>)
qed

lemma without_file_simps:
  "form (without_file req s) = form req"
  "form_get (without_file req s) k d = form_get req k d"
  "speaker_type_of (without_file req s) tag = speaker_type_of req tag"
  "locals_of u (without_file req s) p a b = locals_of u req p a b"
  "no_api_key (without_file req s) = no_api_key req"
  by (simp_all add: without_file_def form_get_def speaker_type_of_def locals_of_def
      no_api_key_def)

lemma save_upload_without_file:
  "s' \<noteq> s \<Longrightarrow> save_upload env (without_file req s) s' al pre = save_upload env req s' al pre"
  "accepted req s al = None \<Longrightarrow>
     save_upload env (without_file req s) s al pre = save_upload env req s al pre"
  by (simp_all add: save_upload_def accepted_def without_file_def)

lemma slot_names_distinct:
  "str ''pdf_file'' \<noteq> str ''speaker1'' @ str ''_audio''"
  "str ''pdf_file'' \<noteq> str ''speaker2'' @ str ''_audio''"
  "str ''speaker1'' @ str ''_audio'' \<noteq> str ''speaker2'' @ str ''_audio''"
  "str ''speaker1'' @ str ''_audio'' \<noteq> str ''pdf_file''"
  "str ''speaker2'' @ str ''_audio'' \<noteq> str ''pdf_file''"
  "str ''speaker2'' @ str ''_audio'' \<noteq> str ''speaker1'' @ str ''_audio''"
  "str ''speaker1'' \<noteq> str ''speaker2''" "str ''speaker2'' \<noteq> str ''speaker1''"
  by (simp_all add: str_def)

lemma rejected_slot_absent:
  assumes "(slot, allowed) \<in> set upload_slots" "files req slot = Some f"
    "\<not> has_allowed_extension (filename f) allowed"
  shows "generate_podcast env u (without_file req slot) = generate_podcast env u req"
proof -
  have n: "accepted req slot allowed = None"
    using assms(2,3) by (simp add: accepted_def allowed_file_iff)
  have names: "str ''speaker1_audio'' = str ''speaker1'' @ str ''_audio''"
    "str ''speaker2_audio'' = str ''speaker2'' @ str ''_audio''"
    by (simp_all add: str_def)
  from assms(1) consider "slot = str ''pdf_file''" "allowed = ALLOWED_PDF_EXTENSIONS"
    | "slot = str ''speaker1'' @ str ''_audio''" "allowed = ALLOWED_AUDIO_EXTENSIONS"
    | "slot = str ''speaker2'' @ str ''_audio''" "allowed = ALLOWED_AUDIO_EXTENSIONS"
    unfolding upload_slots_def names by auto
  then show ?thesis
  proof cases
    case 1
    with n show ?thesis
      by (simp add: generate_podcast_def speaker_upload_def without_file_simps
          save_upload_without_file slot_names_distinct)
  next
    case 2
    with n show ?thesis
      by (simp add: generate_podcast_def speaker_upload_def without_file_simps
          save_upload_without_file slot_names_distinct)
  next
    case 3
    with n show ?thesis
      by (simp add: generate_podcast_def speaker_upload_def without_file_simps
          save_upload_without_file slot_names_distinct)
  qed
qed

text \<open>
  Claim C5.  Whatever a request to \<open>/api/generate_podcast\<close> saves is the file of one of
  its three upload slots, written under the upload directory's path joined with a name
  that starts with the session id and ends with the secured file name, and the file's name
  contains a dot and has, after its last dot and lowercased, an extension allowed for the
  slot (\<open>pdf\<close> for the PDF slot; \<open>wav\<close>, \<open>mp3\<close>, \<open>flac\<close>, \<open>m4a\<close>, \<open>ogg\<close> for the audio slots).
  A file whose name fails this test is not saved, and the request is handled exactly as
  the request without that file.
\<close>

theorem upload_saved_only_if_allowed:
  "(\<forall>path data. Invoke (Save path data) \<in> set (run (generate_podcast env u req)) \<longrightarrow>
      (\<exists>slot allowed f prefix. (slot, allowed) \<in> set upload_slots \<and>
          files req slot = Some f \<and> has_allowed_extension (filename f) allowed \<and>
          data = stream f \<and>
          path = path_join (UPLOAD_DIR env) (u @ prefix @ secure_filename env (filename f)))) \<and>
   (\<forall>slot allowed f. (slot, allowed) \<in> set upload_slots \<and> files req slot = Some f \<and>
      \<not> has_allowed_extension (filename f) allowed \<longrightarrow>
      generate_podcast env u req = generate_podcast env u (without_file req slot))"
proof (intro conjI allI impI)
  fix path data
  assume "Invoke (Save path data) \<in> set (run (generate_podcast env u req))"
  then have "Invoke (Save path data) \<in> set (fst (generate_podcast env u req))"
    by (rule run_saves_in_handler)
  then show "\<exists>slot allowed f prefix. (slot, allowed) \<in> set upload_slots \<and>
          files req slot = Some f \<and> has_allowed_extension (filename f) allowed \<and>
          data = stream f \<and>
          path = path_join (UPLOAD_DIR env) (u @ prefix @ secure_filename env (filename f))"
    by (rule handler_only_allowed)
next
  fix slot allowed f
  assume "(slot, allowed) \<in> set upload_slots \<and> files req slot = Some f \<and>
      \<not> has_allowed_extension (filename f) allowed"
  then show "generate_podcast env u req = generate_podcast env u (without_file req slot)"
    using rejected_slot_absent [of slot allowed req f env u] by simp
qed


theorem upload_saved_only_if_allowed_witness:
  "Invoke (Save (str ''uploads/u1_a.PDF'') [1, 2, 3])
     \<in> set (run (generate_podcast demo_env (str ''u1'') demo_request)) \<and>
   (\<exists>slot allowed f prefix. (slot, allowed) \<in> set upload_slots \<and>
      files demo_request slot = Some f \<and> has_allowed_extension (filename f) allowed \<and>
      [1, 2, 3] = stream f \<and>
      str ''uploads/u1_a.PDF'' =
        path_join (UPLOAD_DIR demo_env)
          (str ''u1'' @ prefix @ secure_filename demo_env (filename f))) \<and>
   (str ''pdf_file'', ALLOWED_PDF_EXTENSIONS) \<in> set upload_slots \<and>
   files text_file_request (str ''pdf_file'') =
     Some \<lparr> filename = str ''notes.txt'', stream = [7] \<rparr> \<and>
   \<not> has_allowed_extension (str ''notes.txt'') ALLOWED_PDF_EXTENSIONS \<and>
   generate_podcast demo_env (str ''u1'') text_file_request =
     generate_podcast demo_env (str ''u1'') (without_file text_file_request (str ''pdf_file''))"
proof -
  have s: "Invoke (Save (str ''uploads/u1_a.PDF'') [1, 2, 3])
     \<in> set (run (generate_podcast demo_env (str ''u1'') demo_request))"
    by (simp add: gen_defs handler_defs text_defs demo_defs)
  have slot: "(str ''pdf_file'', ALLOWED_PDF_EXTENSIONS) \<in> set upload_slots"
    by (simp add: upload_slots_def)
  have f: "files text_file_request (str ''pdf_file'') =
     Some \<lparr> filename = str ''notes.txt'', stream = [7] \<rparr>"
    by (simp add: text_file_request_def demo_defs)
  have r: "\<not> has_allowed_extension (str ''notes.txt'') ALLOWED_PDF_EXTENSIONS"
    by (simp add: allowed_file_iff [symmetric] text_defs)
  note t1 = upload_saved_only_if_allowed [of demo_env "str ''u1''" demo_request]
  note t2 = upload_saved_only_if_allowed [of demo_env "str ''u1''" text_file_request]
  from t1 s have e: "\<exists>slot allowed f prefix. (slot, allowed) \<in> set upload_slots \<and>
      files demo_request slot = Some f \<and> has_allowed_extension (filename f) allowed \<and>
      [1, 2, 3] = stream f \<and>
      str ''uploads/u1_a.PDF'' =
        path_join (UPLOAD_DIR demo_env)
          (str ''u1'' @ prefix @ secure_filename demo_env (filename f))"
    by blast
  from t2 slot f r have q: "generate_podcast demo_env (str ''u1'') text_file_request =
     generate_podcast demo_env (str ''u1'') (without_file text_file_request (str ''pdf_file''))"
    by (metis file_storage.select_convs(1))
  from s e slot f r q show ?thesis by (intro conjI)
qed

subsection \<open>Calls into the speech provider\<close>

lemma voices_step_calls:
  assumes "a \<in> set (fst (voices_step env x cfgs))" "provider_call a"
  shows "a = Invoke (PrepareVoices (fst cfgs) (snd cfgs) (user_api_key x))"
  using assms
  by (auto simp: voices_step_def gen_defs provider_call_def split: sum.splits option.splits
      if_splits)

lemma podcast_step_calls:
  assumes "a \<in> set (fst (podcast_step env x m ids))" "provider_call a"
  shows "a = Invoke (GeneratePodcastStream m (fst ids) (snd ids) (session_id x) (user_api_key x))"
  using assms by (auto simp: podcast_step_def Let_def provider_call_def)

lemma in_bind:
  "a \<in> set (fst (bind m f)) \<Longrightarrow>
     a \<in> set (fst m) \<or> (\<exists>x. snd m = Next x \<and> a \<in> set (fst (f x)))"
  by (cases "snd m") (auto simp: bind_def)

lemma body_provider_calls:
  assumes "a \<in> set (fst (generate_body env x))" "provider_call a"
  shows "(\<exists>cfgs. snd (speaker_configs x) = Next cfgs \<and>
            a = Invoke (PrepareVoices (fst cfgs) (snd cfgs) (user_api_key x))) \<or>
         (\<exists>m v1 v2. a = Invoke (GeneratePodcastStream m v1 v2 (session_id x) (user_api_key x)))"
proof -
  have front: "a \<notin> set (fst (parse_step env x))" "a \<notin> set (fst (speaker_configs x))"
    using calm_parse_step [of env x] calm_speaker_configs [of x] assms(2)
    by (auto simp: calm_def)
  from assms(1) front consider
      cfgs where "snd (speaker_configs x) = Next cfgs" "a \<in> set (fst (voices_step env x cfgs))"
    | m ids where "a \<in> set (fst (podcast_step env x m ids))"
    using assms(2) unfolding generate_body_def
    by (auto simp: yield_def provider_call_def dest!: in_bind)
  then show ?thesis
  proof cases
    case 1
    with voices_step_calls [OF 1(2) assms(2)] show ?thesis by blast
  next
    case 2
    with podcast_step_calls [OF 2 assms(2)] show ?thesis by blast
  qed
qed

lemma generate_provider_calls:
  assumes "a \<in> set (fst (generate env x))" "provider_call a"
  shows "(\<exists>cfgs. snd (speaker_configs x) = Next cfgs \<and>
            a = Invoke (PrepareVoices (fst cfgs) (snd cfgs) (user_api_key x))) \<or>
         (\<exists>m v1 v2. a = Invoke (GeneratePodcastStream m v1 v2 (session_id x) (user_api_key x)))"
proof -
  from assms have "a \<in> set (fst (generate_body env x))"
    by (auto simp: generate_def try_except_def yield_def provider_call_def split: outcome.splits)
  then show ?thesis using assms(2) by (rule body_provider_calls)
qed

lemma run_provider_calls:
  assumes "a \<in> set (run (generate_podcast env u req))" "provider_call a"
  shows "\<not> no_api_key req \<and> a \<in> set (fst (generate env (closure env u req)))"
proof (cases "no_api_key req")
  case True
  with assms show ?thesis
    by (auto simp: handler_no_key run_def error_gen_def yield_def provider_call_def)
next
  case False
  from assms(2) have ns: "a \<notin> set (fst (generate_podcast env u req))"
    using handler_saves [of a env u req] save_not_provider by blast
  show ?thesis
  proof (cases "snd (generate_podcast env u req)")
    case (Return r)
    show ?thesis
    proof (cases r)
      case (EventStream g)
      with Return False have "g = generate env (closure env u req)" by (simp add: handler_stream)
      with assms(1) ns Return EventStream False show ?thesis by (simp add: run_def)
    next
      case (Jsonify j)
      with assms(1) ns Return show ?thesis by (simp add: run_def)
    qed
  qed (use assms(1) ns in \<open>simp_all add: run_def\<close>)
qed


lemma speaker_config_default:
  "snd (speaker_config l (str ''default'') v a) = Next c \<Longrightarrow>
     c = [(str ''type'', str ''default''), (str ''voice_name'', v)]"
  by (simp add: speaker_config_def ret_def)

lemma speaker_configs_default:
  assumes "snd (speaker_configs x) = Next cfgs"
  shows "(speaker1_type x = str ''default'' \<longrightarrow>
            fst cfgs = [(str ''type'', str ''default''), (str ''voice_name'', speaker1_voice_name x)]) \<and>
         (speaker2_type x = str ''default'' \<longrightarrow>
            snd cfgs = [(str ''type'', str ''default''), (str ''voice_name'', speaker2_voice_name x)])"
  using assms
  by (auto simp: speaker_configs_def snd_bind ret_def split: outcome.splits
      dest: speaker_config_default)

lemma default_is_not_custom: "str ''default'' \<noteq> str ''custom''" "str ''custom'' \<noteq> str ''default''"
  by (simp_all add: str_def)

lemma default_speaker_unsaved:
  assumes "speaker_type_of req tag = str ''default''"
    "tag = str ''speaker1'' \<or> tag = str ''speaker2''"
  shows "generate_podcast env u (without_file req (tag @ str ''_audio'')) =
         generate_podcast env u req"
  using assms
  by (auto simp: generate_podcast_def speaker_upload_def without_file_simps
      save_upload_without_file slot_names_distinct default_is_not_custom)

lemma prepared_configs:
  assumes "Invoke (PrepareVoices c1 c2 key) \<in> set (run (generate_podcast env u req))"
  shows "\<exists>cfgs. snd (speaker_configs (closure env u req)) = Next cfgs \<and>
           c1 = fst cfgs \<and> c2 = snd cfgs"
proof -
  have p: "provider_call (Invoke (PrepareVoices c1 c2 key))" by (simp add: provider_call_def)
  from run_provider_calls [OF assms p]
  have "Invoke (PrepareVoices c1 c2 key) \<in> set (fst (generate env (closure env u req)))" by simp
  from generate_provider_calls [OF this p] show ?thesis by auto
qed

text \<open>
  Claim C10.  When the type of a speaker is \<open>default\<close>, the request is handled exactly as
  the request without that speaker's audio file, so the file is never saved and the upload
  directory is written as if the slot were empty; and the configuration of that speaker
  passed to voice preparation is the type \<open>default\<close> with the voice name, without any
  audio file.
\<close>

theorem default_speaker_audio_ignored:
  "(speaker_type_of req (str ''speaker1'') = str ''default'' \<longrightarrow>
      generate_podcast env u req = generate_podcast env u (without_file req (str ''speaker1_audio'')) \<and>
      (\<forall>c1 c2 key. Invoke (PrepareVoices c1 c2 key) \<in> set (run (generate_podcast env u req)) \<longrightarrow>
         c1 = [(str ''type'', str ''default''),
               (str ''voice_name'', form_get req (str ''speaker1_voice_name'') (str ''mini''))])) \<and>
   (speaker_type_of req (str ''speaker2'') = str ''default'' \<longrightarrow>
      generate_podcast env u req = generate_podcast env u (without_file req (str ''speaker2_audio'')) \<and>
      (\<forall>c1 c2 key. Invoke (PrepareVoices c1 c2 key) \<in> set (run (generate_podcast env u req)) \<longrightarrow>
         c2 = [(str ''type'', str ''default''),
               (str ''voice_name'', form_get req (str ''speaker2_voice_name'') (str ''max''))]))"
proof -
  have names: "str ''speaker1_audio'' = str ''speaker1'' @ str ''_audio''"
    "str ''speaker2_audio'' = str ''speaker2'' @ str ''_audio''"
    by (simp_all add: str_def)
  have l: "speaker1_type (closure env u req) = speaker_type_of req (str ''speaker1'')"
    "speaker2_type (closure env u req) = speaker_type_of req (str ''speaker2'')"
    "speaker1_voice_name (closure env u req) = form_get req (str ''speaker1_voice_name'') (str ''mini'')"
    "speaker2_voice_name (closure env u req) = form_get req (str ''speaker2_voice_name'') (str ''max'')"
    by (simp_all add: closure_def locals_of_def)
  show ?thesis
  proof (intro conjI impI allI)
    assume "speaker_type_of req (str ''speaker1'') = str ''default''"
    then show "generate_podcast env u req =
        generate_podcast env u (without_file req (str ''speaker1_audio''))"
      unfolding names by (simp add: default_speaker_unsaved)
  next
    fix c1 c2 key
    assume d: "speaker_type_of req (str ''speaker1'') = str ''default''"
      and "Invoke (PrepareVoices c1 c2 key) \<in> set (run (generate_podcast env u req))"
    from prepared_configs [OF this(2)] obtain cfgs where
      "snd (speaker_configs (closure env u req)) = Next cfgs" "c1 = fst cfgs" by blast
    with speaker_configs_default [of "closure env u req" cfgs] d l
    show "c1 = [(str ''type'', str ''default''),
               (str ''voice_name'', form_get req (str ''speaker1_voice_name'') (str ''mini''))]"
      by simp
  next
    assume "speaker_type_of req (str ''speaker2'') = str ''default''"
    then show "generate_podcast env u req =
        generate_podcast env u (without_file req (str ''speaker2_audio''))"
      unfolding names by (simp add: default_speaker_unsaved)
  next
    fix c1 c2 key
    assume d: "speaker_type_of req (str ''speaker2'') = str ''default''"
      and "Invoke (PrepareVoices c1 c2 key) \<in> set (run (generate_podcast env u req))"
    from prepared_configs [OF this(2)] obtain cfgs where
      "snd (speaker_configs (closure env u req)) = Next cfgs" "c2 = snd cfgs" by blast
    with speaker_configs_default [of "closure env u req" cfgs] d l
    show "c2 = [(str ''type'', str ''default''),
               (str ''voice_name'', form_get req (str ''speaker2_voice_name'') (str ''max''))]"
      by simp
  qed
qed

theorem default_speaker_audio_ignored_witness:
  "speaker_type_of default_voice_request (str ''speaker1'') = str ''default'' \<and>
   files default_voice_request (str ''speaker1_audio'') =
     Some \<lparr> filename = str ''me.wav'', stream = [9] \<rparr> \<and>
   generate_podcast demo_env (str ''u1'') default_voice_request =
     generate_podcast demo_env (str ''u1'')
       (without_file default_voice_request (str ''speaker1_audio'')) \<and>
   filter is_save (run (generate_podcast demo_env (str ''u1'') default_voice_request)) = [] \<and>
   Invoke (PrepareVoices
             [(str ''type'', str ''default''), (str ''voice_name'', str ''mini'')]
             [(str ''type'', str ''default''), (str ''voice_name'', str ''max'')] (str ''k1''))
     \<in> set (run (generate_podcast demo_env (str ''u1'') default_voice_request))"
proof -
  have h: "speaker_type_of default_voice_request (str ''speaker1'') = str ''default''"
    by (simp add: speaker_type_of_def form_get_def default_voice_request_def str_def)
  have f: "files default_voice_request (str ''speaker1_audio'') =
     Some \<lparr> filename = str ''me.wav'', stream = [9] \<rparr>"
    by (simp add: default_voice_request_def)
  have r: "run (generate_podcast demo_env (str ''u1'') default_voice_request) =
             fst (generate demo_env (closure demo_env (str ''u1'') default_voice_request))"
    by (simp add: gen_defs generate_podcast_def save_upload_def speaker_upload_def
        speaker_type_of_def accepted_def form_get_def run_def closure_def speaker_audio_def
        text_defs demo_defs default_voice_request_def)
  have s: "filter is_save (run (generate_podcast demo_env (str ''u1'') default_voice_request)) = []"
    using saveless_generate [of demo_env "closure demo_env (str ''u1'') default_voice_request"]
    by (simp add: r saveless_def filter_empty_conv)
  have p: "Invoke (PrepareVoices
             [(str ''type'', str ''default''), (str ''voice_name'', str ''mini'')]
             [(str ''type'', str ''default''), (str ''voice_name'', str ''max'')] (str ''k1''))
     \<in> set (run (generate_podcast demo_env (str ''u1'') default_voice_request))"
    unfolding r
    by (simp add: gen_defs stage_defs handler_defs text_defs demo_defs default_voice_request_def
        no_content_marker_def)
  from default_speaker_audio_ignored [of default_voice_request demo_env "str ''u1''"] h
  have "generate_podcast demo_env (str ''u1'') default_voice_request =
     generate_podcast demo_env (str ''u1'')
       (without_file default_voice_request (str ''speaker1_audio''))"
    by simp
  with h f s p show ?thesis by (intro conjI)
qed


lemma clone_voice_calls:
  assumes "a \<in> set (fst (clone_voice env req))" "provider_call a"
  shows "\<exists>data. get_json req = Inr data \<and>
           call_key a = Some (if dict_get data (str ''api_key'') [] = [] then MINIMAX_API_KEY env
                              else dict_get data (str ''api_key'') [])"
  using assms
  by (auto simp: clone_voice_def clone_voice_body_def gen_defs Let_def provider_call_def
      call_key_def failure_def split: sum.splits if_splits outcome.splits)

lemma other_routes_calm:
  "a \<in> set (fst (upload_audio env u now req)) \<Longrightarrow> \<not> provider_call a"
  "a \<in> set (fst (parse_content env now req)) \<Longrightarrow> \<not> provider_call a"
  by (auto simp: upload_audio_def upload_audio_body_def parse_content_def parse_content_body_def
      parse_content_url_def parse_content_pdf_def gen_defs Let_def provider_call_def
      split: sum.splits if_splits outcome.splits option.splits)

text \<open>
  Claim C8, as amended.  Every call into the speech provider made for a request to
  \<open>/api/generate_podcast\<close> (voice preparation, podcast generation) carries the API key of
  the request's form, stripped of surrounding white space.  The voice preparation made for
  a request to \<open>/api/clone-voice\<close> carries the API key of the request's JSON body when
  that key is present and not empty, and the key of the server's configuration otherwise.
  The routes \<open>/api/upload_audio\<close> and \<open>/api/parse-content\<close> make no such call.
\<close>

theorem provider_calls_keys:
  "(\<forall>a\<in>set (run (generate_podcast env u req)). provider_call a \<longrightarrow>
      call_key a = Some (strip (form_get req (str ''api_key'') []))) \<and>
   (\<forall>a\<in>set (fst (clone_voice env req)). provider_call a \<longrightarrow>
      (\<exists>data. get_json req = Inr data \<and>
         call_key a = Some (if dict_get data (str ''api_key'') [] = [] then MINIMAX_API_KEY env
                            else dict_get data (str ''api_key'') []))) \<and>
   (\<forall>a\<in>set (fst (upload_audio env u now req)). \<not> provider_call a) \<and>
   (\<forall>a\<in>set (fst (parse_content env now req)). \<not> provider_call a)"
proof (intro conjI ballI impI)
  fix a
  assume a: "a \<in> set (run (generate_podcast env u req))" "provider_call a"
  from run_provider_calls [OF a] have "a \<in> set (fst (generate env (closure env u req)))" by simp
  from generate_provider_calls [OF this a(2)]
  have "call_key a = Some (user_api_key (closure env u req))"
    by (auto simp: call_key_def)
  then show "call_key a = Some (strip (form_get req (str ''api_key'') []))"
    by (simp add: closure_def locals_of_def)
qed (use clone_voice_calls other_routes_calm in blast)+

text \<open>
  Claim C8 as stated fails on \<open>/api/clone-voice\<close>: for a request that supplies no API key,
  voice preparation is called with the key of the server's configuration.
\<close>

theorem clone_voice_server_key_counterexample:
  "get_json clone_request =
     Inr [(str ''filepath'', str ''uploads/a.wav''), (str ''speaker'', str ''speaker1'')] \<and>
   MINIMAX_API_KEY demo_env = str ''server-key'' \<and>
   fst (clone_voice demo_env clone_request) =
     [Invoke (PrepareVoices
        [(str ''type'', str ''custom''), (str ''audio_file'', str ''uploads/a.wav'')]
        [(str ''type'', str ''default''), (str ''voice_name'', str ''mini'')]
        (str ''server-key''))]"
  by (simp add: clone_voice_def clone_voice_body_def gen_defs dict_get_def truthy_str_def fmt_def
      clone_request_def demo_env_def str_def)

theorem provider_calls_keys_witness:
  "Invoke (PrepareVoices
             [(str ''type'', str ''default''), (str ''voice_name'', str ''mini'')]
             [(str ''type'', str ''default''), (str ''voice_name'', str ''max'')] (str ''k1''))
     \<in> set (run (generate_podcast demo_env (str ''u1'') default_voice_request)) \<and>
   strip (form_get default_voice_request (str ''api_key'') []) = str ''k1'' \<and>
   call_key (Invoke (PrepareVoices
             [(str ''type'', str ''default''), (str ''voice_name'', str ''mini'')]
             [(str ''type'', str ''default''), (str ''voice_name'', str ''max'')] (str ''k1'')))
     = Some (strip (form_get default_voice_request (str ''api_key'') []))"
proof -
  let ?a = "Invoke (PrepareVoices
             [(str ''type'', str ''default''), (str ''voice_name'', str ''mini'')]
             [(str ''type'', str ''default''), (str ''voice_name'', str ''max'')] (str ''k1''))"
  have p: "?a \<in> set (run (generate_podcast demo_env (str ''u1'') default_voice_request))"
    by (simp add: gen_defs stage_defs handler_defs text_defs demo_defs default_voice_request_def
        no_content_marker_def)
  have k: "strip (form_get default_voice_request (str ''api_key'') []) = str ''k1''"
    by (simp add: form_get_def text_defs default_voice_request_def)
  have c: "provider_call ?a" by (simp add: provider_call_def)
  from provider_calls_keys [of demo_env "str ''u1''" default_voice_request] p c
  have "call_key ?a = Some (strip (form_get default_voice_request (str ''api_key'') []))"
    by blast
  with p k show ?thesis by (intro conjI)
qed

subsection \<open>Recordings and the names of saved files\<close>

lemma upload_audio_eq:
  assumes "files req (str ''audio'') = Some f" "filename f \<noteq> []"
  shows "upload_audio env u now req =
     ([Invoke (Save (path_join (UPLOAD_DIR env) (recording_name u now req)) (stream f))],
      Return (case save env (path_join (UPLOAD_DIR env) (recording_name u now req)) (stream f) of
                Inl e \<Rightarrow> failure e
              | Inr ok \<Rightarrow>
                  Jsonify [(str ''success'', JBool True),
                           (str ''filepath'',
                              JStr (path_join (UPLOAD_DIR env) (recording_name u now req))),
                           (str ''filename'', JStr (recording_name u now req))]))"
  using assms
  by (simp add: upload_audio_def upload_audio_body_def recording_name_def file_true_def gen_defs
      Let_def split: sum.splits)

text \<open>
  Claim C9, as amended.  \<open>/api/upload_audio\<close> looks at no file extension.  For every
  uploaded file whose file object is true (its file name is not empty), whatever that name
  is, the route saves the file's content once, under the upload directory's path joined
  with a name built from the session id, the speaker tag and the time and ending in
  \<open>.wav\<close>.  When the save returns, the response reports success with that path and name;
  when the save raises, the response reports the failure with the exception's message.
\<close>

theorem upload_audio_saves_wav:
  assumes "files req (str ''audio'') = Some f" "filename f \<noteq> []"
  shows "fst (upload_audio env u now req) =
           [Invoke (Save (path_join (UPLOAD_DIR env) (recording_name u now req)) (stream f))] \<and>
         (\<exists>stem. recording_name u now req = stem @ str ''.wav'') \<and>
         (save env (path_join (UPLOAD_DIR env) (recording_name u now req)) (stream f) = Inr () \<longrightarrow>
            snd (upload_audio env u now req) =
              Return (Jsonify [(str ''success'', JBool True),
                (str ''filepath'', JStr (path_join (UPLOAD_DIR env) (recording_name u now req))),
                (str ''filename'', JStr (recording_name u now req))])) \<and>
         (\<forall>e. save env (path_join (UPLOAD_DIR env) (recording_name u now req)) (stream f) = Inl e \<longrightarrow>
            snd (upload_audio env u now req) = Return (failure e))"
proof -
  have "\<exists>stem. recording_name u now req = stem @ str ''.wav''"
    unfolding recording_name_def
    by (rule exI [of _ "form_get req (str ''session_id'') u @ str ''_''
       @ form_get req (str ''speaker'') (str ''unknown'') @ str ''_'' @ digits now"]) simp
  then show ?thesis
    by (simp add: upload_audio_eq [OF assms])
qed

text \<open>
  Claim C9 as stated fails when the save raises: the file is not empty, and the response
  reports a failure.
\<close>

theorem upload_audio_full_disk_counterexample:
  "files recording_request (str ''audio'') = Some \<lparr> filename = str ''clip.mp3'', stream = [5] \<rparr> \<and>
   upload_audio full_disk_env (str ''u1'') 0 recording_request =
     ([Invoke (Save (str ''uploads/u1_unknown_0.wav'') [5])],
      Return (Jsonify [(str ''success'', JBool False), (str ''error'', JStr (str ''disk full''))]))"
  by (simp add: upload_audio_def upload_audio_body_def gen_defs form_get_def file_true_def
      failure_def digits.simps [of 0] text_defs demo_defs full_disk_env_def
      recording_request_def)

theorem upload_audio_saves_wav_witness:
  "files recording_request (str ''audio'') = Some \<lparr> filename = str ''clip.mp3'', stream = [5] \<rparr> \<and>
   filename \<lparr> filename = str ''clip.mp3'', stream = [5] \<rparr> \<noteq> [] \<and>
   path_join (UPLOAD_DIR demo_env) (recording_name (str ''u1'') 0 recording_request) =
     str ''uploads/u1_unknown_0.wav'' \<and>
   fst (upload_audio demo_env (str ''u1'') 0 recording_request) =
     [Invoke (Save (str ''uploads/u1_unknown_0.wav'') [5])] \<and>
   snd (upload_audio demo_env (str ''u1'') 0 recording_request) =
     Return (Jsonify [(str ''success'', JBool True),
       (str ''filepath'', JStr (str ''uploads/u1_unknown_0.wav'')),
       (str ''filename'', JStr (recording_name (str ''u1'') 0 recording_request))])"
proof -
  have f: "files recording_request (str ''audio'') =
      Some \<lparr> filename = str ''clip.mp3'', stream = [5] \<rparr>"
    by (simp add: recording_request_def)
  have n: "filename \<lparr> filename = str ''clip.mp3'', stream = [5] \<rparr> \<noteq> []"
    by (simp add: str_def)
  have p: "path_join (UPLOAD_DIR demo_env) (recording_name (str ''u1'') 0 recording_request) =
     str ''uploads/u1_unknown_0.wav''"
    by (simp add: recording_name_def form_get_def digits.simps [of 0] text_defs demo_defs
        recording_request_def)
  have s: "save demo_env (str ''uploads/u1_unknown_0.wav'') [5] = Inr ()"
    by (simp add: demo_env_def)
  from upload_audio_saves_wav [OF f n, of demo_env "str ''u1''" 0] p s f n show ?thesis
    by simp
qed












end
